theory Spec2Isabelle
  imports Complex_Main
begin

section \<open>Horse-race model pipeline: features, cross-validation, edge computation\<close>

text \<open>
  The repository is Python over pandas, numpy and scikit-learn. A float64 column of a
  data frame is a list of \<open>real option\<close> cells, \<open>None\<close> being pandas' missing
  marker NaN. Arithmetic in the feature stage is the exact arithmetic of the reals
  (rounding is not modelled there); the edge computation of
  \<^verbatim>\<open>src/processing/combine.py\<close> is modelled in binary64 with its rounding.
\<close>

datatype py_error = KeyError string | ValueError | DataError

subsection \<open>\<^verbatim>\<open>pd.cut\<close> with explicit bin edges\<close>

text \<open>
  \<^verbatim>\<open>pd.cut(x, bins=[...], labels=[...])\<close> with the defaults \<^verbatim>\<open>right=True\<close>,
  \<^verbatim>\<open>include_lowest=False\<close>: pandas takes \<^verbatim>\<open>ids = bins.searchsorted(x, side="left")\<close>,
  masks NaN inputs and the positions \<open>0\<close> and \<open>len(bins)\<close>, and reads
  \<^verbatim>\<open>labels[ids - 1]\<close> elsewhere. An edge is a number or \<^verbatim>\<open>np.inf\<close>.
\<close>

datatype edge = Edge real | PosInf

fun edge_less :: "edge \<Rightarrow> real \<Rightarrow> bool" where
  "edge_less (Edge b) v = (b < v)"
| "edge_less PosInf v = False"

definition searchsorted_left :: "edge list \<Rightarrow> real \<Rightarrow> nat" where
  "searchsorted_left bins v = length (takeWhile (\<lambda>b. edge_less b v) bins)"

definition cut :: "edge list \<Rightarrow> 'l list \<Rightarrow> real option \<Rightarrow> 'l option" where
  "cut bins labels x =
     (case x of
        None \<Rightarrow> None
      | Some v \<Rightarrow>
          (let ids = searchsorted_left bins v
           in if ids = 0 \<or> ids = length bins then None else Some (labels ! (ids - 1))))"

subsection \<open>\<^verbatim>\<open>add_form_features\<close>: the \<^verbatim>\<open>RecentRun\<close> column\<close>

text \<open>
  The second and third labels of the source contain an en dash (U+2013), three bytes in
  UTF-8.
\<close>

definition en_dash :: string where
  "en_dash = [CHR 0xE2, CHR 0x80, CHR 0x93]"

definition form_bins :: "edge list" where
  "form_bins = [Edge (-1), Edge 7, Edge 30, Edge 90, Edge 9999]"

definition form_labels :: "string list" where
  "form_labels = [''<7d'', ''8'' @ en_dash @ ''30d'', ''31'' @ en_dash @ ''90d'', ''90d+'']"

definition RecentRun :: "real option \<Rightarrow> string option" where
  "RecentRun d = cut form_bins form_labels d"

definition add_form_features_RecentRun :: "real option list \<Rightarrow> string option list" where
  "add_form_features_RecentRun daysSinceLastRun = map RecentRun daysSinceLastRun"

subsection \<open>\<^verbatim>\<open>add_track_distance_features\<close>: parsing and bucketing \<^verbatim>\<open>Distance\<close>\<close>

definition is_digit :: "char \<Rightarrow> bool" where
  "is_digit c = (c \<in> set ''0123456789'')"

text \<open>
  \<^verbatim>\<open>str.extract(r"(\d+\.?\d*)")[0]\<close>: the first match of the pattern. A match starts
  at the first digit of the string; the three greedy parts take the run of digits, a dot
  if one follows, and the run of digits after it. No digit, no match (NaN).
\<close>

definition str_extract :: "string \<Rightarrow> string option" where
  "str_extract s =
     (let s1 = dropWhile (\<lambda>c. \<not> is_digit c) s
      in if s1 = [] then None
         else (let d1 = takeWhile is_digit s1; r = dropWhile is_digit s1
               in case r of
                    c # r' \<Rightarrow> if c = CHR ''.'' then Some (d1 @ ''.'' @ takeWhile is_digit r')
                              else Some d1
                  | [] \<Rightarrow> Some d1))"

definition digit_val :: "char \<Rightarrow> nat" where
  "digit_val c = of_char c - 48"

definition digits_val :: "string \<Rightarrow> nat" where
  "digits_val ds = foldl (\<lambda>acc c. 10 * acc + digit_val c) 0 ds"

text \<open>
  \<^verbatim>\<open>pd.to_numeric(extracted, errors="coerce")\<close> on what the pattern can match: digits,
  optionally a dot and more digits. NaN stays NaN; any other text is coerced to NaN.
\<close>

definition to_numeric :: "string option \<Rightarrow> real option" where
  "to_numeric t =
     (case t of
        None \<Rightarrow> None
      | Some s \<Rightarrow>
          (let d1 = takeWhile is_digit s; r = dropWhile is_digit s
           in if d1 = [] then None
              else case r of
                     [] \<Rightarrow> Some (real (digits_val d1))
                   | c # d2 \<Rightarrow>
                       if c = CHR ''.'' \<and> list_all is_digit d2
                       then Some (real (digits_val d1) + real (digits_val d2) / 10 ^ length d2)
                       else None))"

definition distance_bins :: "edge list" where
  "distance_bins = [Edge 0, Edge 1200, Edge 1600, Edge 2000, Edge 2400, Edge 3000, PosInf]"

definition distance_labels :: "string list" where
  "distance_labels = [''Sprint'', ''Mile'', ''Intermediate'', ''Classic'', ''Long'', ''Marathon'']"

definition Distance :: "string \<Rightarrow> real option" where
  "Distance s = to_numeric (str_extract s)"

definition Distance_Bucket :: "string \<Rightarrow> string option" where
  "Distance_Bucket s = cut distance_bins distance_labels (Distance s)"

subsection \<open>\<^verbatim>\<open>groupby(key)[column].transform(f)\<close>\<close>

text \<open>
  A group is the rows that share a key, in row order. \<^verbatim>\<open>transform\<close> applies the function
  to the column values of each group and writes the results back to the rows of the
  group, so that row \<open>i\<close> receives the entry of its group's result at the position of
  \<open>i\<close> within the group. An exception raised by the function for a group ends the call.
  The key column has no missing value, and the function returns as many values as the
  group has rows.
\<close>

definition group_rows :: "'g list \<Rightarrow> 'g \<Rightarrow> nat list" where
  "group_rows keys g = filter (\<lambda>i. keys ! i = g) [0..<length keys]"

definition pos_in_group :: "'g list \<Rightarrow> nat \<Rightarrow> nat" where
  "pos_in_group keys i = length (filter (\<lambda>j. keys ! j = keys ! i) [0..<i])"

fun collect :: "('e + 'a) list \<Rightarrow> 'e + 'a list" where
  "collect [] = Inr []"
| "collect (Inl e # rs) = Inl e"
| "collect (Inr a # rs) = (case collect rs of Inl e \<Rightarrow> Inl e | Inr as \<Rightarrow> Inr (a # as))"

definition transform :: "('a list \<Rightarrow> py_error + 'b list) \<Rightarrow> 'g list \<Rightarrow> 'a list \<Rightarrow> py_error + 'b list" where
  "transform f keys vals =
     collect (map (\<lambda>i. case f (map ((!) vals) (group_rows keys (keys ! i))) of
                           Inl e \<Rightarrow> Inl e
                         | Inr ys \<Rightarrow> Inr (ys ! pos_in_group keys i))
                [0..<length keys])"

subsection \<open>\<^verbatim>\<open>merge\<close> with \<^verbatim>\<open>how="left"\<close>\<close>

text \<open>
  \<^verbatim>\<open>left.merge(right, on=keys, how="left")\<close>: the left rows in their order, each once
  for every right row with the same key (in the right table's order), or once with the
  right columns missing when no right row has its key.
\<close>

definition merge_left :: "('a \<Rightarrow> 'k) \<Rightarrow> ('b \<Rightarrow> 'k) \<Rightarrow> 'a list \<Rightarrow> 'b list \<Rightarrow> ('a \<times> 'b option) list" where
  "merge_left kl kr left right =
     concat (map (\<lambda>a. case filter (\<lambda>b. kr b = kl a) right of
                          [] \<Rightarrow> [(a, None)]
                        | b # bs \<Rightarrow> map (\<lambda>b'. (a, Some b')) (b # bs)) left)"

subsection \<open>\<^verbatim>\<open>add_race_relative_features\<close>: the \<^verbatim>\<open>z_Speed_PreviousRun\<close> column\<close>

text \<open>
  The function of the source is \<^verbatim>\<open>lambda x: (x - x.mean()) / (x.std() + 1e-5)\<close> on the
  \<^verbatim>\<open>Speed_PreviousRun\<close> values of one race. \<^verbatim>\<open>Series.mean\<close> and \<^verbatim>\<open>Series.std\<close> skip
  NaN; \<^verbatim>\<open>std\<close> has the default \<^verbatim>\<open>ddof=1\<close>: it divides the sum of the squared
  deviations by the number of observed values minus one and is NaN when at most one value
  is observed. Arithmetic with a NaN operand is NaN.
\<close>

definition observed :: "real option list \<Rightarrow> real list" where
  "observed x = map the (filter (\<lambda>c. c \<noteq> None) x)"

definition mean_skipna :: "real option list \<Rightarrow> real option" where
  "mean_skipna x =
     (let obs = observed x
      in if obs = [] then None else Some (sum_list obs / real (length obs)))"

definition std_skipna :: "real option list \<Rightarrow> real option" where
  "std_skipna x =
     (let obs = observed x; n = length obs
      in if n \<le> 1 then None
         else (let avg = sum_list obs / real n
               in Some (sqrt (sum_list (map (\<lambda>v. (avg - v)\<^sup>2) obs) / real (n - 1)))))"

definition z_score :: "real option list \<Rightarrow> real option list" where
  "z_score x =
     map (\<lambda>xi. case (xi, mean_skipna x, std_skipna x) of
                  (Some v, Some m, Some s) \<Rightarrow> Some ((v - m) / (s + 1 / 10 ^ 5))
                | _ \<Rightarrow> None) x"

definition z_Speed_PreviousRun :: "'g list \<Rightarrow> real option list \<Rightarrow> py_error + real option list" where
  "z_Speed_PreviousRun race_ids speed = transform (\<lambda>x. Inr (z_score x)) race_ids speed"

text \<open>
  The standard deviation the specification names, for comparison: the population
  standard deviation, which divides by the number of values.
\<close>

definition population_std :: "real list \<Rightarrow> real" where
  "population_std obs =
     sqrt (sum_list (map (\<lambda>v. (v - sum_list obs / real (length obs))\<^sup>2) obs) / real (length obs))"

subsection \<open>Data frames of \<^verbatim>\<open>add_rolling_win_rates\<close>\<close>

text \<open>
  A cell holds a number or a string, or is missing (\<open>None\<close>, pandas' NaN). A frame
  has a single unnamed index of integer row labels, as \<^verbatim>\<open>read_csv\<close> and \<^verbatim>\<open>merge\<close>
  produce it, and its columns by name, all of the length of the index. A column with a
  string cell has dtype \<^verbatim>\<open>object\<close>, any other column is numeric.
\<close>

datatype cell = Num real | Str string

record frame =
  index :: "int list"
  columns :: "(string \<times> cell option list) list"

definition column :: "frame \<Rightarrow> string \<Rightarrow> cell option list option" where
  "column df name = map_of (columns df) name"

fun is_numeric :: "cell option \<Rightarrow> bool" where
  "is_numeric (Some (Str s)) = False"
| "is_numeric c = True"

fun num_of :: "cell option \<Rightarrow> real option" where
  "num_of (Some (Num r)) = Some r"
| "num_of c = None"

text \<open>
  \<^verbatim>\<open>groupby(col)\<close> drops the rows whose key is missing and sorts the groups by key:
  numbers by value, strings by code point. A key column is of one dtype; between a number
  and a string the order here puts the number first.
\<close>

fun str_le :: "string \<Rightarrow> string \<Rightarrow> bool" where
  "str_le [] t = True"
| "str_le (c # s) [] = False"
| "str_le (c # s) (d # t) = ((of_char c :: nat) < of_char d \<or> (c = d \<and> str_le s t))"

fun cell_le :: "cell \<Rightarrow> cell \<Rightarrow> bool" where
  "cell_le (Num a) (Num b) = (a \<le> b)"
| "cell_le (Str s) (Str t) = str_le s t"
| "cell_le (Num a) (Str t) = True"
| "cell_le (Str s) (Num b) = False"

fun insert_key :: "cell \<Rightarrow> cell list \<Rightarrow> cell list" where
  "insert_key k [] = [k]"
| "insert_key k (x # xs) = (if cell_le k x then k # x # xs else x # insert_key k xs)"

definition group_keys :: "cell option list \<Rightarrow> cell list" where
  "group_keys keycol = foldr insert_key (remdups (map the (filter (\<lambda>c. c \<noteq> None) keycol))) []"

text \<open>
  \<^verbatim>\<open>rolling(window=50, min_periods=10).mean()\<close> on the \<^verbatim>\<open>Winner\<close> values of one
  group, in row order: the entry at position \<open>p\<close> looks at the values up to and
  including position \<open>p\<close>, keeps the last \<open>window\<close> of them, and is the mean of
  those that are not NaN if there are at least \<open>min_periods\<close> of them, NaN otherwise.
\<close>

definition window_mean :: "nat \<Rightarrow> nat \<Rightarrow> real option list \<Rightarrow> real option" where
  "window_mean window min_periods past =
     (let obs = observed (drop (length past - window) past)
      in if min_periods \<le> length obs \<and> obs \<noteq> [] then Some (sum_list obs / real (length obs))
         else None)"

definition rolling_mean :: "nat \<Rightarrow> nat \<Rightarrow> real option list \<Rightarrow> real option list" where
  "rolling_mean window min_periods ws =
     map (\<lambda>p. window_mean window min_periods (take (Suc p) ws)) [0..<length ws]"

text \<open>
  The frame \<^verbatim>\<open>rolling\<close> of the source after \<^verbatim>\<open>reset_index()\<close> and \<^verbatim>\<open>rename\<close>, as
  its rows: the group key (column \<^verbatim>\<open>col\<close>), the label the row has in the index of
  \<^verbatim>\<open>df\<close> (column \<^verbatim>\<open>level_1\<close>, the name \<^verbatim>\<open>reset_index\<close> gives the unnamed second
  level) and the rolling mean (column \<^verbatim>\<open>col_WinRate50\<close>).
\<close>

definition groupby_rolling_mean ::
  "int list \<Rightarrow> cell option list \<Rightarrow> real option list \<Rightarrow> (cell \<times> int \<times> real option) list" where
  "groupby_rolling_mean idx keycol winner =
     concat (map (\<lambda>k. let rows = group_rows keycol (Some k);
                          vals = rolling_mean 50 10 (map ((!) winner) rows)
                      in map (\<lambda>p. (k, idx ! (rows ! p), vals ! p)) [0..<length rows])
               (group_keys keycol))"

text \<open>
  \<^verbatim>\<open>df.merge(rolling, on=["level_1", col], how="left")\<close>. Both frames must have the
  key columns: \<^verbatim>\<open>rolling\<close> has them, \<^verbatim>\<open>df\<close> has \<^verbatim>\<open>level_1\<close> only if it carries a
  column of that name, and pandas raises \<^verbatim>\<open>KeyError\<close> otherwise. An \<^verbatim>\<open>object\<close> column
  \<^verbatim>\<open>level_1\<close> does not merge with the integer labels (\<^verbatim>\<open>ValueError\<close>). The result has
  the rows of \<^verbatim>\<open>df\<close> in their order, once per matching row of \<^verbatim>\<open>rolling\<close>, a fresh
  index, the columns of \<^verbatim>\<open>df\<close> and the new column; when \<^verbatim>\<open>df\<close> already has a column
  of the new name, the two get the suffixes \<^verbatim>\<open>_x\<close> and \<^verbatim>\<open>_y\<close>.
\<close>

definition merge_rolling ::
  "frame \<Rightarrow> string \<Rightarrow> (cell \<times> int \<times> real option) list \<Rightarrow> py_error + frame" where
  "merge_rolling df col rolling =
     (case column df ''level_1'' of
        None \<Rightarrow> Inl (KeyError ''level_1'')
      | Some l1 \<Rightarrow>
          (case column df col of
             None \<Rightarrow> Inl (KeyError col)
           | Some keycol \<Rightarrow>
               if \<not> list_all is_numeric l1 then Inl ValueError
               else (let pairs = merge_left (\<lambda>i. (l1 ! i, keycol ! i))
                                   (\<lambda>(k, l, v). (Some (Num (of_int l)), Some k))
                                   [0..<length (index df)] rolling;
                         name = col @ ''_WinRate50'';
                         clash = (name \<in> fst ` set (columns df));
                         left = map (\<lambda>(n, c). (if clash \<and> n = name then n @ ''_x'' else n,
                                                 map (\<lambda>(i, m). c ! i) pairs)) (columns df);
                         right = map (\<lambda>(i, m). case m of
                                                   None \<Rightarrow> None
                                                 | Some (k, l, v) \<Rightarrow> map_option Num v) pairs
                     in Inr \<lparr>index = map int [0..<length pairs],
                             columns = left @ [(if clash then name @ ''_y'' else name, right)]\<rparr>)))"

text \<open>
  One iteration of the loop over \<^verbatim>\<open>["JockeyID", "TrainerID"]\<close>. The rolling mean of an
  \<^verbatim>\<open>object\<close> column raises \<^verbatim>\<open>DataError\<close>.
\<close>

definition rolling_step :: "string \<Rightarrow> frame \<Rightarrow> py_error + frame" where
  "rolling_step col df =
     (case (column df col, column df ''Winner'') of
        (Some keycol, Some w) \<Rightarrow>
          if \<not> list_all is_numeric w then Inl DataError
          else merge_rolling df col (groupby_rolling_mean (index df) keycol (map num_of w))
      | _ \<Rightarrow> Inr df)"

definition add_rolling_win_rates :: "frame \<Rightarrow> py_error + frame" where
  "add_rolling_win_rates df =
     (case rolling_step ''JockeyID'' df of
        Inl e \<Rightarrow> Inl e
      | Inr df1 \<Rightarrow> rolling_step ''TrainerID'' df1)"

text \<open>
  Reading a cell of the result: \<^verbatim>\<open>df[name].iloc[i]\<close>.
\<close>

definition cell_at :: "py_error + frame \<Rightarrow> string \<Rightarrow> nat \<Rightarrow> py_error + cell option" where
  "cell_at r name i =
     (case r of
        Inl e \<Rightarrow> Inl e
      | Inr df \<Rightarrow> (case column df name of None \<Rightarrow> Inl (KeyError name) | Some c \<Rightarrow> Inr (c ! i)))"

text \<open>
  For stating what the new columns hold: the earlier rows of the entity of row \<open>i\<close>
  (its prior races), the \<^verbatim>\<open>Winner\<close> values of the entity up to and including row
  \<open>i\<close>, and the rolling mean over them.
\<close>

definition prior_races :: "cell option list \<Rightarrow> nat \<Rightarrow> nat list" where
  "prior_races keycol i = filter (\<lambda>j. keycol ! j = keycol ! i) [0..<i]"

definition entity_history :: "cell option list \<Rightarrow> cell option list \<Rightarrow> nat \<Rightarrow> real option list" where
  "entity_history keycol w i = map (\<lambda>j. num_of (w ! j)) (prior_races keycol i @ [i])"

definition win_rate_cell :: "cell option list \<Rightarrow> cell option list \<Rightarrow> nat \<Rightarrow> cell option" where
  "win_rate_cell keycol w i =
     (case keycol ! i of
        None \<Rightarrow> None
      | Some k \<Rightarrow> map_option Num (window_mean 50 10 (entity_history keycol w i)))"

text \<open>
  A frame of \<open>n\<close> rows on which the merge attaches each value to its own row: the
  index is \<open>0, ..., n - 1\<close> and a column \<^verbatim>\<open>level_1\<close> repeats it. An input of the
  transform: such a frame with a numeric \<^verbatim>\<open>Winner\<close> column and no win-rate column yet.
\<close>

definition row_labelled :: "frame \<Rightarrow> nat \<Rightarrow> bool" where
  "row_labelled df n \<longleftrightarrow>
     index df = map int [0..<n] \<and>
     column df ''level_1'' = Some (map (\<lambda>i. Some (Num (real i))) [0..<n]) \<and>
     list_all (\<lambda>c. length (snd c) = n) (columns df)"

definition rolling_input :: "frame \<Rightarrow> nat \<Rightarrow> cell option list \<Rightarrow> bool" where
  "rolling_input df n w \<longleftrightarrow>
     row_labelled df n \<and>
     column df ''Winner'' = Some w \<and> list_all is_numeric w \<and>
     column df ''JockeyID_WinRate50'' = None \<and>
     column df ''TrainerID_WinRate50'' = None"

text \<open>
  Example tables. Eleven races in order: jockey \<open>A\<close> rides all but the fourth, so
  that the last row is that jockey's tenth race; no race is won, except possibly the last.
  A race table as the CSV reader delivers it, without a column \<^verbatim>\<open>level_1\<close>. And twelve
  races of one jockey and one trainer, the tenth of them won, with the rows labelled
  \<open>1, ..., 12\<close> in the index and in \<^verbatim>\<open>level_1\<close>.
\<close>

definition example_jockey :: "cell option list" where
  "example_jockey = map (\<lambda>i. Some (Str (if i = 3 then ''B'' else ''A''))) [0..<11]"

definition example_trainer :: "cell option list" where
  "example_trainer = map (\<lambda>i. Some (Str ''T'')) [0..<11]"

definition example_winner :: "real \<Rightarrow> cell option list" where
  "example_winner x = map (\<lambda>i. Some (Num (if i = 10 then x else 0))) [0..<11]"

definition example_frame :: "real \<Rightarrow> frame" where
  "example_frame x =
     \<lparr>index = map int [0..<11],
      columns = [(''level_1'', map (\<lambda>i. Some (Num (real i))) [0..<11]),
                 (''JockeyID'', example_jockey),
                 (''TrainerID'', example_trainer),
                 (''Winner'', example_winner x)]\<rparr>"

definition race_table :: frame where
  "race_table =
     \<lparr>index = [0, 1],
      columns = [(''Race_ID'', [Some (Num 1), Some (Num 1)]),
                 (''Horse'', [Some (Str ''Arkle''), Some (Str ''Red Rum'')]),
                 (''JockeyID'', [Some (Str ''J1''), Some (Str ''J2'')]),
                 (''TrainerID'', [Some (Str ''T1''), Some (Str ''T2'')]),
                 (''Winner'', [Some (Num 1), Some (Num 0)])]\<rparr>"

definition one_based_frame :: frame where
  "one_based_frame =
     \<lparr>index = map int [1..<13],
      columns = [(''level_1'', map (\<lambda>i. Some (Num (real i))) [1..<13]),
                 (''JockeyID'', map (\<lambda>i. Some (Str ''A'')) [0..<12]),
                 (''TrainerID'', map (\<lambda>i. Some (Str ''T'')) [0..<12]),
                 (''Winner'', map (\<lambda>i. Some (Num (if i = 9 then 1 else 0))) [0..<12])]\<rparr>"

subsection \<open>\<^verbatim>\<open>train_and_evaluate\<close>: the folds of \<^verbatim>\<open>GroupKFold\<close>\<close>

text \<open>
  \<^verbatim>\<open>GroupKFold(n_splits).split(X, y, groups)\<close> is scikit-learn's. It builds a table
  from each distinct group to a fold number, by a balancing heuristic on the group sizes,
  and yields for each fold \<open>f\<close> the positions of the rows whose group is mapped to
  \<open>f\<close> as the test indices and the other positions as the train indices. It raises
  \<^verbatim>\<open>ValueError\<close> for fewer than two splits and for more splits than distinct groups.
  The table is a parameter here: \<open>group_to_fold\<close>.
\<close>

definition GroupKFold_split ::
  "nat \<Rightarrow> ('g \<Rightarrow> nat) \<Rightarrow> 'g list \<Rightarrow> py_error + (nat list \<times> nat list) list" where
  "GroupKFold_split n_splits group_to_fold groups =
     (if n_splits \<le> 1 \<or> length (remdups groups) < n_splits then Inl ValueError
      else Inr (map (\<lambda>f. (filter (\<lambda>i. group_to_fold (groups ! i) \<noteq> f) [0..<length groups],
                           filter (\<lambda>i. group_to_fold (groups ! i) = f) [0..<length groups]))
                  [0..<n_splits]))"

definition iloc :: "'a list \<Rightarrow> nat list \<Rightarrow> 'a list" where
  "iloc xs idx = map ((!) xs) idx"

text \<open>
  What one iteration of the loop of \<^verbatim>\<open>train_and_evaluate\<close> takes from the split: the
  two index arrays and \<^verbatim>\<open>race_ids.iloc[train_idx]\<close>, \<^verbatim>\<open>race_ids.iloc[val_idx]\<close>, the
  race identifiers of the training and of the validation partition.
\<close>

record 'g cv_fold =
  train_idx :: "nat list"
  val_idx :: "nat list"
  train_races :: "'g list"
  val_races :: "'g list"

definition train_and_evaluate_folds ::
  "nat \<Rightarrow> ('g \<Rightarrow> nat) \<Rightarrow> 'g list \<Rightarrow> py_error + 'g cv_fold list" where
  "train_and_evaluate_folds num_folds group_to_fold race_ids =
     (case GroupKFold_split num_folds group_to_fold race_ids of
        Inl e \<Rightarrow> Inl e
      | Inr splits \<Rightarrow>
          Inr (map (\<lambda>(tr, va). \<lparr>train_idx = tr, val_idx = va,
                                 train_races = iloc race_ids tr,
                                 val_races = iloc race_ids va\<rparr>)
                 splits))"

subsection \<open>binary64 values of \<^verbatim>\<open>src/processing/combine.py\<close>\<close>

text \<open>
  A float64 cell of the edge computation: NaN, an infinity, or a finite number. A result
  of an arithmetic operation is rounded to the nearest binary64 number, ties to even, and
  overflows to an infinity, as IEEE 754 has it: with \<open>2 ^ e \<le> \<bar>q\<bar> < 2 ^ (e + 1)\<close> the
  result is the multiple of \<open>2 ^ (e - 52)\<close> nearest to \<open>q\<close>, and an infinity when that
  is \<open>2 ^ 1024\<close> or more. The sign of a zero is not kept.
\<close>

datatype f64 = NaN | PInf | NInf | Fin real

fun binade_up :: "nat \<Rightarrow> real \<Rightarrow> int" where
  "binade_up 0 a = 0"
| "binade_up (Suc n) a = (if a < 2 then 0 else 1 + binade_up n (a / 2))"

fun binade_down :: "nat \<Rightarrow> real \<Rightarrow> int" where
  "binade_down 0 a = 0"
| "binade_down (Suc n) a = (if 1 \<le> a then 0 else binade_down n (2 * a) - 1)"

text \<open>
  The exponent \<open>e\<close> with \<open>2 ^ e \<le> a < 2 ^ (e + 1)\<close>, not below \<open>-1022\<close> (the
  subnormal numbers share the exponent of the smallest normal one) and, above \<open>1024\<close>,
  only as far as the overflow test needs.
\<close>

definition binade :: "real \<Rightarrow> int" where
  "binade a = (if 1 \<le> a then binade_up 1100 a else binade_down 1022 a)"

definition round_half_even :: "real \<Rightarrow> int" where
  "round_half_even x =
     (let f = \<lfloor>x\<rfloor>; d = x - of_int f
      in if d < 1 / 2 then f else if 1 / 2 < d then f + 1 else if even f then f else f + 1)"

definition rnd :: "real \<Rightarrow> f64" where
  "rnd q =
     (let a = \<bar>q\<bar>; e = binade a; inf = (if q < 0 then NInf else PInf)
      in if 1024 \<le> e then inf
         else (let u = 2 powi (e - 52); m = round_half_even (a / u)
               in if e = 1023 \<and> m = 2 ^ 53 then inf else Fin (sgn q * of_int m * u)))"

fun fsub :: "f64 \<Rightarrow> f64 \<Rightarrow> f64" where
  "fsub NaN y = NaN"
| "fsub x NaN = NaN"
| "fsub (Fin a) (Fin b) = rnd (a - b)"
| "fsub (Fin a) PInf = NInf"
| "fsub (Fin a) NInf = PInf"
| "fsub PInf PInf = NaN"
| "fsub PInf y = PInf"
| "fsub NInf NInf = NaN"
| "fsub NInf y = NInf"

fun fdiv :: "f64 \<Rightarrow> f64 \<Rightarrow> f64" where
  "fdiv NaN y = NaN"
| "fdiv x NaN = NaN"
| "fdiv (Fin a) (Fin b) =
     (if b = 0 then (if a = 0 then NaN else if 0 < a then PInf else NInf) else rnd (a / b))"
| "fdiv (Fin a) y = Fin 0"
| "fdiv PInf (Fin b) = (if 0 \<le> b then PInf else NInf)"
| "fdiv NInf (Fin b) = (if 0 \<le> b then NInf else PInf)"
| "fdiv x y = NaN"

subsection \<open>\<^verbatim>\<open>create_edge_backtest_file\<close>\<close>

text \<open>
  The three CSV files as tables of rows with the columns the function reads; the keys
  \<^verbatim>\<open>Race_ID\<close> and \<^verbatim>\<open>Horse\<close> are of any type with equality. Reading and writing the
  files is outside the model: the function maps the three tables to the table it returns.
\<close>

record ('r, 'h) pred_row =
  Race_ID :: 'r
  Horse :: 'h
  Predicted_Probability :: f64

record ('r, 'h) market_row =
  market_Race_ID :: 'r
  market_Horse :: 'h
  market_Market_Odds :: f64

record ('r, 'h) label_row =
  labels_Race_ID :: 'r
  labels_Horse :: 'h
  labels_Position :: f64

record ('r, 'h) backtest_row =
  bt_Race_ID :: 'r
  bt_Horse :: 'h
  bt_Predicted_Probability :: f64
  bt_Market_Odds :: f64
  Market_Prob :: f64
  Edge_Score :: f64
  True_Label :: int

definition pred_key :: "('r, 'h) pred_row \<Rightarrow> 'r \<times> 'h" where
  "pred_key p = (Race_ID p, Horse p)"

definition market_key :: "('r, 'h) market_row \<Rightarrow> 'r \<times> 'h" where
  "market_key m = (market_Race_ID m, market_Horse m)"

definition label_key :: "('r, 'h) label_row \<Rightarrow> 'r \<times> 'h" where
  "label_key l = (labels_Race_ID l, labels_Horse l)"

definition bt_key :: "('r, 'h) backtest_row \<Rightarrow> 'r \<times> 'h" where
  "bt_key r = (bt_Race_ID r, bt_Horse r)"

definition opt_col :: "('b \<Rightarrow> f64) \<Rightarrow> 'b option \<Rightarrow> f64" where
  "opt_col f b = (case b of None \<Rightarrow> NaN | Some x \<Rightarrow> f x)"

definition backtest_of ::
  "(('r, 'h) pred_row \<times> ('r, 'h) market_row option) \<times> ('r, 'h) label_row option
     \<Rightarrow> ('r, 'h) backtest_row" where
  "backtest_of x =
     (let p = fst (fst x);
          odds = opt_col market_Market_Odds (snd (fst x));
          position = opt_col labels_Position (snd x);
          mp = fdiv (Fin 1) odds
      in \<lparr>bt_Race_ID = Race_ID p, bt_Horse = Horse p,
          bt_Predicted_Probability = Predicted_Probability p, bt_Market_Odds = odds,
          Market_Prob = mp,
          Edge_Score = fsub (Predicted_Probability p) mp,
          True_Label = (if position = Fin 1 then 1 else 0)\<rparr>)"

definition create_edge_backtest_file ::
  "('r, 'h) pred_row list \<Rightarrow> ('r, 'h) market_row list \<Rightarrow> ('r, 'h) label_row list
     \<Rightarrow> ('r, 'h) backtest_row list" where
  "create_edge_backtest_file preds market labels =
     (let df = merge_left pred_key market_key preds market;
          df2 = merge_left (\<lambda>x. pred_key (fst x)) label_key df labels
      in map backtest_of df2)"

section \<open>Theorems\<close>

lemma searchsorted_form_bins:
  "searchsorted_left form_bins d =
     (if d \<le> -1 then 0 else if d \<le> 7 then 1 else if d \<le> 30 then 2
      else if d \<le> 90 then 3 else if d \<le> 9999 then 4 else 5)"
  by (simp add: searchsorted_left_def form_bins_def)

text \<open>
  C6. Form bucketing of \<^verbatim>\<open>daysSinceLastRun\<close> uses the half-open intervals
  \<open>(-1,7]\<close>, \<open>(7,30]\<close>, \<open>(30,90]\<close>, \<open>(90,9999]\<close>: a value in the first maps to
  \<^verbatim>\<open><7d\<close>, in the second to \<^verbatim>\<open>8-30d\<close>, in the third to \<^verbatim>\<open>31-90d\<close> and in the
  fourth to \<^verbatim>\<open>90d+\<close> (the two middle labels written with the source's en dash).
\<close>

theorem form_bucket_half_open:
  "(-1 < d \<and> d \<le> 7 \<longrightarrow> RecentRun (Some d) = Some ''<7d'') \<and>
   (7 < d \<and> d \<le> 30 \<longrightarrow> RecentRun (Some d) = Some (''8'' @ en_dash @ ''30d'')) \<and>
   (30 < d \<and> d \<le> 90 \<longrightarrow> RecentRun (Some d) = Some (''31'' @ en_dash @ ''90d'')) \<and>
   (90 < d \<and> d \<le> 9999 \<longrightarrow> RecentRun (Some d) = Some ''90d+'')"
  by (simp add: RecentRun_def cut_def searchsorted_form_bins form_labels_def)
    (simp add: form_bins_def)

theorem form_bucket_half_open_witness:
  "RecentRun (Some 7) = Some ''<7d'' \<and>
   RecentRun (Some 30) = Some (''8'' @ en_dash @ ''30d'') \<and>
   RecentRun (Some 90) = Some (''31'' @ en_dash @ ''90d'') \<and>
   RecentRun (Some 9999) = Some ''90d+''"
  using form_bucket_half_open [of 7] form_bucket_half_open [of 30]
    form_bucket_half_open [of 90] form_bucket_half_open [of 9999]
  by simp

text \<open>
  C5 (as amended). Under the thresholds \<open>(1200,1600,2000,2400,3000)\<close> the input
  \<^verbatim>\<open>"2400m"\<close> parses to the number 2400 and falls into the bucket \<^verbatim>\<open>Classic\<close>, the
  right-closed interval \<open>(2000,2400]\<close>; the input \<^verbatim>\<open>"garbage"\<close> parses to a missing
  number and a missing bucket.
\<close>

theorem distance_bucket_examples:
  "Distance ''2400m'' = Some 2400 \<and> Distance_Bucket ''2400m'' = Some ''Classic'' \<and>
   Distance ''garbage'' = None \<and> Distance_Bucket ''garbage'' = None"
  by (simp add: Distance_Bucket_def Distance_def to_numeric_def str_extract_def is_digit_def
      digits_val_def digit_val_def cut_def searchsorted_left_def distance_bins_def
      distance_labels_def)

text \<open>
  C5 as stated fails: \<^verbatim>\<open>"2400m"\<close> is not mapped to the bucket \<^verbatim>\<open>Long\<close>.
\<close>

theorem distance_bucket_2400m_not_Long:
  "\<not> (Distance ''2400m'' = Some 2400 \<and> Distance_Bucket ''2400m'' = Some ''Long'' \<and>
      Distance ''garbage'' = None \<and> Distance_Bucket ''garbage'' = None)"
  by (simp add: Distance_Bucket_def Distance_def to_numeric_def str_extract_def is_digit_def
      digits_val_def digit_val_def cut_def searchsorted_left_def distance_bins_def
      distance_labels_def)

subsection \<open>Groups and \<^verbatim>\<open>transform\<close>\<close>

lemma collect_Inr:
  "\<forall>r\<in>set rs. \<exists>a. r = Inr a \<Longrightarrow> collect rs = Inr (map projr rs)"
  by (induction rs) auto

lemma transform_total:
  assumes "\<And>g. g \<in> set keys \<Longrightarrow> f (map ((!) vals) (group_rows keys g)) = Inr (h g)"
  shows "transform f keys vals = Inr (map (\<lambda>i. h (keys ! i) ! pos_in_group keys i) [0..<length keys])"
proof -
  have "map (\<lambda>i. case f (map ((!) vals) (group_rows keys (keys ! i))) of
                           Inl e \<Rightarrow> Inl e
                         | Inr ys \<Rightarrow> Inr (ys ! pos_in_group keys i)) [0..<length keys] =
        map (\<lambda>i. Inr (h (keys ! i) ! pos_in_group keys i)) [0..<length keys]"
    by (rule map_cong) (auto simp: assms)
  then show ?thesis
    unfolding transform_def by (simp add: collect_Inr comp_def)
qed

lemma upt_split: "i < n \<Longrightarrow> [0..<n] = [0..<i] @ i # [Suc i..<n]"
  using upt_add_eq_append [of 0 i "n - i"] by (simp add: upt_conv_Cons)

lemma filter_upt_nth:
  assumes "i < n" "P i"
  shows "filter P [0..<n] ! length (filter P [0..<i]) = i"
proof -
  have "[0..<n] = [0..<i] @ i # [Suc i..<n]"
    using assms(1) by (rule upt_split)
  then have "filter P [0..<n] = filter P [0..<i] @ i # filter P [Suc i..<n]"
    using assms(2) by simp
  then show ?thesis by (simp add: nth_append)
qed

lemma group_rows_pos:
  "i < length keys \<Longrightarrow> group_rows keys (keys ! i) ! pos_in_group keys i = i"
  unfolding group_rows_def pos_in_group_def by (rule filter_upt_nth) simp_all

lemma pos_in_group_less:
  assumes "i < length keys"
  shows "pos_in_group keys i < length (group_rows keys (keys ! i))"
proof -
  have "[0..<length keys] = [0..<i] @ i # [Suc i..<length keys]"
    using assms by (rule upt_split)
  then have "filter (\<lambda>j. keys ! j = keys ! i) [0..<length keys] =
     filter (\<lambda>j. keys ! j = keys ! i) [0..<i] @ i # filter (\<lambda>j. keys ! j = keys ! i) [Suc i..<length keys]"
    by simp
  then show ?thesis by (simp add: group_rows_def pos_in_group_def)
qed

lemma transform_row:
  assumes "\<And>g. g \<in> set keys \<Longrightarrow>
     f (map ((!) vals) (group_rows keys g)) = Inr (map (k g) (map ((!) vals) (group_rows keys g)))"
  shows "transform f keys vals = Inr (map (\<lambda>i. k (keys ! i) (vals ! i)) [0..<length keys])"
proof -
  have "transform f keys vals =
     Inr (map (\<lambda>i. map (k (keys ! i)) (map ((!) vals) (group_rows keys (keys ! i))) ! pos_in_group keys i)
            [0..<length keys])"
    using assms by (rule transform_total)
  moreover have "map (\<lambda>i. map (k (keys ! i)) (map ((!) vals) (group_rows keys (keys ! i))) ! pos_in_group keys i)
       [0..<length keys]
     = map (\<lambda>i. k (keys ! i) (vals ! i)) [0..<length keys]"
    by (rule map_cong) (simp_all add: pos_in_group_less group_rows_pos)
  ultimately show ?thesis by simp
qed

subsection \<open>The race-relative z-score\<close>

lemma z_Speed_PreviousRun_rows:
  "z_Speed_PreviousRun race_ids speed =
     Inr (map (\<lambda>i. case (speed ! i,
                         mean_skipna (map ((!) speed) (group_rows race_ids (race_ids ! i))),
                         std_skipna (map ((!) speed) (group_rows race_ids (race_ids ! i)))) of
                     (Some v, Some m, Some s) \<Rightarrow> Some ((v - m) / (s + 1 / 10 ^ 5))
                   | _ \<Rightarrow> None) [0..<length race_ids])"
  unfolding z_Speed_PreviousRun_def
  by (rule transform_row) (simp add: z_score_def)

lemma group_rows_pair: "group_rows [1, 1 :: int] 1 = [0, 1]"
  by code_simp

lemma group_rows_single: "group_rows [7 :: int] 7 = [0]"
  by code_simp

lemma z_example:
  "z_Speed_PreviousRun [1, 1 :: int] [Some 0, Some 2] =
     Inr [Some (- 1 / (sqrt 2 + 1 / 10 ^ 5)), Some (1 / (sqrt 2 + 1 / 10 ^ 5))]"
  unfolding z_Speed_PreviousRun_rows
  by (simp add: upt_conv_Cons group_rows_pair mean_skipna_def std_skipna_def observed_def Let_def)

lemma z_single:
  "z_Speed_PreviousRun [7 :: int] [Some 5] = Inr [None]"
  unfolding z_Speed_PreviousRun_rows
  by (simp add: upt_conv_Cons group_rows_single mean_skipna_def std_skipna_def observed_def Let_def)

text \<open>
  C8 (as amended). For every race group and every row of it, the z-score of the speed
  predictor is (value minus the group mean) divided by (the group's sample standard
  deviation, with divisor \<open>n - 1\<close>, plus \<open>1e-5\<close>), where mean and deviation are over
  the \<open>n\<close> observed values of the group; the denominator is positive, so never zero;
  the z-score is missing when the value is missing or the group has at most one observed
  value.
\<close>

theorem z_score_sample_std:
  assumes i: "i < length race_ids"
  shows "\<exists>z. z_Speed_PreviousRun race_ids speed = Inr z \<and> length z = length race_ids \<and>
    (let obs = observed (map ((!) speed) (group_rows race_ids (race_ids ! i)));
         n = length obs;
         m = sum_list obs / real n;
         s = sqrt (sum_list (map (\<lambda>v. (v - m)\<^sup>2) obs) / real (n - 1))
     in 0 < s + 1 / 10 ^ 5 \<and>
        z ! i = (case speed ! i of
                   None \<Rightarrow> None
                 | Some v \<Rightarrow> if n \<le> 1 then None else Some ((v - m) / (s + 1 / 10 ^ 5))))"
proof -
  let ?x = "map ((!) speed) (group_rows race_ids (race_ids ! i))"
  let ?obs = "observed ?x"
  let ?n = "length ?obs"
  let ?m = "sum_list ?obs / real ?n"
  let ?s = "sqrt (sum_list (map (\<lambda>v. (v - ?m)\<^sup>2) ?obs) / real (?n - 1))"
  have "0 \<le> sum_list (map (\<lambda>v. (v - ?m)\<^sup>2) ?obs)"
    by (rule sum_list_nonneg) auto
  then have s0: "0 \<le> ?s" by simp
  then have pos: "0 < ?s + 1 / 10 ^ 5" by (simp add: add_nonneg_pos)
  have sq: "(\<lambda>v. (?m - v)\<^sup>2) = (\<lambda>v. (v - ?m)\<^sup>2)"
    by (auto simp: power2_commute)
  have std: "std_skipna ?x = (if ?n \<le> 1 then None else Some ?s)"
    by (simp add: std_skipna_def Let_def sq)
  have mean: "mean_skipna ?x = (if ?n = 0 then None else Some ?m)"
    by (simp add: mean_skipna_def Let_def)
  define cell where "cell j =
     (case (speed ! j,
            mean_skipna (map ((!) speed) (group_rows race_ids (race_ids ! j))),
            std_skipna (map ((!) speed) (group_rows race_ids (race_ids ! j)))) of
        (Some v, Some m, Some s) \<Rightarrow> Some ((v - m) / (s + 1 / 10 ^ 5))
      | _ \<Rightarrow> None)" for j
  have eq: "cell i =
        (case speed ! i of
           None \<Rightarrow> None
         | Some v \<Rightarrow> if ?n \<le> 1 then None else Some ((v - ?m) / (?s + 1 / 10 ^ 5)))"
    unfolding cell_def std mean by (auto split: option.splits)
  have zi: "map cell [0..<length race_ids] ! i = cell i"
    using i by simp
  have "z_Speed_PreviousRun race_ids speed = Inr (map cell [0..<length race_ids])"
    unfolding cell_def by (rule z_Speed_PreviousRun_rows)
  moreover have "length (map cell [0..<length race_ids]) = length race_ids"
    by simp
  moreover have "map cell [0..<length race_ids] ! i =
        (case speed ! i of
           None \<Rightarrow> None
         | Some v \<Rightarrow> if ?n \<le> 1 then None else Some ((v - ?m) / (?s + 1 / 10 ^ 5)))"
    by (simp only: zi eq)
  ultimately show ?thesis
    unfolding Let_def using pos by blast
qed

text \<open>
  The theorem at the first row of a race of two horses with speeds 0 and 2.
\<close>

theorem z_score_sample_std_witness:
  "\<exists>z. z_Speed_PreviousRun [1, 1 :: int] [Some 0, Some 2] = Inr z \<and>
       z ! 0 = Some (- 1 / (sqrt 2 + 1 / 10 ^ 5))"
proof -
  have "0 < length [1, 1 :: int]" by simp
  from z_score_sample_std [OF this, of "[Some 0, Some 2]"]
  show ?thesis
    by (auto simp: group_rows_pair observed_def Let_def)
qed

text \<open>
  C8 as stated fails. In a race with speeds 0 and 2 the z-score of the first horse is
  \<open>-1 / (sqrt 2 + 1e-5)\<close>, while the population standard deviation, 1, gives
  \<open>-1 / (1 + 1e-5)\<close>; in a race of one horse the z-score is missing, while the
  population standard deviation, 0, gives 0.
\<close>

theorem z_score_not_population_std:
  "z_Speed_PreviousRun [1, 1 :: int] [Some 0, Some 2] =
     Inr [Some (- 1 / (sqrt 2 + 1 / 10 ^ 5)), Some (1 / (sqrt 2 + 1 / 10 ^ 5))] \<and>
   (0 - sum_list [0, 2] / 2) / (population_std [0, 2] + 1 / 10 ^ 5) = - 1 / (1 + 1 / 10 ^ 5) \<and>
   - 1 / (sqrt 2 + 1 / 10 ^ 5) \<noteq> (- 1 / (1 + 1 / 10 ^ 5) :: real) \<and>
   z_Speed_PreviousRun [7 :: int] [Some 5] = Inr [None] \<and>
   (5 - sum_list [5] / 1) / (population_std [5] + 1 / 10 ^ 5) = 0"
proof -
  have "sqrt 2 + 1 / 10 ^ 5 \<noteq> (1 + 1 / 10 ^ 5 :: real)" by simp
  then have ne: "- 1 / (sqrt 2 + 1 / 10 ^ 5) \<noteq> (- 1 / (1 + 1 / 10 ^ 5) :: real)"
    unfolding divide_cancel_left by linarith
  have pop: "population_std [0, 2] = 1" "population_std [5] = 0"
    by (simp_all add: population_std_def)
  show ?thesis
    unfolding z_example z_single pop using ne by simp
qed

subsection \<open>Rolling win rates\<close>

lemma set_insert_key: "set (insert_key k xs) = insert k (set xs)"
  by (induction xs) auto

lemma distinct_insert_key: "distinct (insert_key k xs) \<longleftrightarrow> k \<notin> set xs \<and> distinct xs"
  by (induction xs) (auto simp: set_insert_key)

lemma set_foldr_insert_key: "set (foldr insert_key xs []) = set xs"
  by (induction xs) (auto simp: set_insert_key)

lemma distinct_foldr_insert_key: "distinct xs \<Longrightarrow> distinct (foldr insert_key xs [])"
  by (induction xs) (auto simp: distinct_insert_key set_foldr_insert_key)

lemma set_group_keys: "set (group_keys keycol) = {k. Some k \<in> set keycol}"
  unfolding group_keys_def set_foldr_insert_key by force

lemma distinct_group_keys: "distinct (group_keys keycol)"
  unfolding group_keys_def by (rule distinct_foldr_insert_key) simp

lemma filter_concat_none:
  assumes "\<And>k'. k' \<in> set ks \<Longrightarrow> filter P (f k') = []"
  shows "filter P (concat (map f ks)) = []"
  using assms by (induction ks) auto

lemma filter_concat_one:
  assumes "distinct ks" "k \<in> set ks"
    and "\<And>k'. k' \<in> set ks \<Longrightarrow> k' \<noteq> k \<Longrightarrow> filter P (f k') = []"
  shows "filter P (concat (map f ks)) = filter P (f k)"
  using assms
proof (induction ks)
  case Nil
  then show ?case by simp
next
  case (Cons a ks)
  show ?case
  proof (cases "a = k")
    case True
    then have "k \<notin> set ks" using Cons.prems(1) by simp
    then have "\<And>k'. k' \<in> set ks \<Longrightarrow> filter P (f k') = []"
      using Cons.prems(3) by auto
    then have "filter P (concat (map f ks)) = []" by (rule filter_concat_none)
    with True show ?thesis by simp
  next
    case False
    then have "filter P (f a) = []" using Cons.prems(3) by simp
    moreover have "filter P (concat (map f ks)) = filter P (f k)"
      using Cons.IH Cons.prems False by simp
    ultimately show ?thesis by simp
  qed
qed

lemma distinct_group_rows: "distinct (group_rows keys g)"
  by (simp add: group_rows_def)

lemma filter_nth_eq:
  assumes "distinct rows" "q < length rows"
  shows "filter (\<lambda>p. rows ! p = rows ! q) [0..<length rows] = [q]"
proof -
  have "[0..<length rows] = [0..<q] @ q # [Suc q..<length rows]"
    using assms(2) by (rule upt_split)
  moreover have "filter (\<lambda>p. rows ! p = rows ! q) [0..<q] = []"
    using assms by (auto simp: filter_empty_conv nth_eq_iff_index_eq)
  moreover have "filter (\<lambda>p. rows ! p = rows ! q) [Suc q..<length rows] = []"
    using assms by (auto simp: filter_empty_conv nth_eq_iff_index_eq)
  ultimately show ?thesis by simp
qed

lemma take_group_rows:
  assumes "i < length keys"
  shows "take (Suc (pos_in_group keys i)) (group_rows keys (keys ! i)) =
         filter (\<lambda>j. keys ! j = keys ! i) [0..<Suc i]"
proof -
  have "[0..<length keys] = [0..<i] @ i # [Suc i..<length keys]"
    using assms by (rule upt_split)
  then have "group_rows keys (keys ! i) =
     filter (\<lambda>j. keys ! j = keys ! i) [0..<i] @ i # filter (\<lambda>j. keys ! j = keys ! i) [Suc i..<length keys]"
    by (simp add: group_rows_def)
  then show ?thesis by (simp add: pos_in_group_def)
qed

lemma merge_left_single:
  assumes "\<And>a. a \<in> set left \<Longrightarrow>
     filter (\<lambda>b. kr b = kl a) right = (case g a of None \<Rightarrow> [] | Some b \<Rightarrow> [b])"
  shows "merge_left kl kr left right = map (\<lambda>a. (a, g a)) left"
proof -
  have "map (\<lambda>a. case filter (\<lambda>b. kr b = kl a) right of
                          [] \<Rightarrow> [(a, None)]
                        | b # bs \<Rightarrow> map (\<lambda>b'. (a, Some b')) (b # bs)) left =
        map (\<lambda>a. [(a, g a)]) left"
    by (rule map_cong) (auto simp: assms split: option.splits)
  then show ?thesis
    unfolding merge_left_def by (simp only: concat_map_singleton)
qed

lemma rolling_match:
  assumes i: "i < n" and len: "length keycol = n" "length w = n"
  shows "filter (\<lambda>b. (case b of (k, l, v) \<Rightarrow> (Some (Num (of_int l)), Some k)) = (Some (Num (real i)), keycol ! i))
           (groupby_rolling_mean (map int [0..<n]) keycol (map num_of w)) =
         (case keycol ! i of
            None \<Rightarrow> []
          | Some k \<Rightarrow> [(k, int i, window_mean 50 10 (entity_history keycol w i))])"
proof -
  let ?P = "\<lambda>b. (case b of (k, l, v) \<Rightarrow> (Some (Num (of_int l)), Some k)) = (Some (Num (real i)), keycol ! i)"
  let ?f = "\<lambda>k. let rows = group_rows keycol (Some k);
                     vals = rolling_mean 50 10 (map ((!) (map num_of w)) rows)
                 in map (\<lambda>p. (k, map int [0..<n] ! (rows ! p), vals ! p)) [0..<length rows]"
  have roll: "groupby_rolling_mean (map int [0..<n]) keycol (map num_of w) = concat (map ?f (group_keys keycol))"
    by (simp add: groupby_rolling_mean_def)
  show ?thesis
  proof (cases "keycol ! i")
    case None
    have "filter ?P (concat (map ?f (group_keys keycol))) = []"
      by (rule filter_concat_none) (auto simp: filter_empty_conv Let_def None)
    with None roll show ?thesis by simp
  next
    case (Some k)
    have kin: "k \<in> set (group_keys keycol)"
      using Some i len by (auto simp: set_group_keys in_set_conv_nth)
    have other: "filter ?P (?f k') = []" if "k' \<noteq> k" for k'
      using that by (auto simp: filter_empty_conv Let_def Some)
    have one: "filter ?P (concat (map ?f (group_keys keycol))) = filter ?P (?f k)"
      using distinct_group_keys kin other by (rule filter_concat_one)
    let ?rows = "group_rows keycol (Some k)"
    let ?q = "pos_in_group keycol i"
    have ik: "i < length keycol" using i len by simp
    have rows_k: "?rows = group_rows keycol (keycol ! i)" using Some by simp
    have q: "?q < length ?rows" unfolding rows_k using ik by (rule pos_in_group_less)
    have rq: "?rows ! ?q = i" unfolding rows_k using ik by (rule group_rows_pos)
    have bound: "?rows ! p < n" if "p < length ?rows" for p
    proof -
      have "?rows ! p \<in> set ?rows" using that by simp
      then show ?thesis using len by (simp add: group_rows_def)
    qed
    have sel: "filter (\<lambda>p. ?rows ! p = i) [0..<length ?rows] = [?q]"
      using filter_nth_eq [OF distinct_group_rows q] rq by simp
    have "filter ?P (?f k) =
          map (\<lambda>p. (k, map int [0..<n] ! (?rows ! p),
                     rolling_mean 50 10 (map ((!) (map num_of w)) ?rows) ! p))
            (filter (\<lambda>p. ?rows ! p = i) [0..<length ?rows])"
      unfolding Let_def filter_map comp_def
      by (rule arg_cong [where f = "map _"], rule filter_cong) (auto simp: Some bound)
    also have "\<dots> = [(k, int i, rolling_mean 50 10 (map ((!) (map num_of w)) ?rows) ! ?q)]"
      unfolding sel using rq i by simp
    finally have fk: "filter ?P (?f k) =
        [(k, int i, rolling_mean 50 10 (map ((!) (map num_of w)) ?rows) ! ?q)]" .
    have "rolling_mean 50 10 (map ((!) (map num_of w)) ?rows) ! ?q =
          window_mean 50 10 (take (Suc ?q) (map ((!) (map num_of w)) ?rows))"
      using q by (simp add: rolling_mean_def)
    also have "take (Suc ?q) (map ((!) (map num_of w)) ?rows) =
          map ((!) (map num_of w)) (filter (\<lambda>j. keycol ! j = keycol ! i) [0..<Suc i])"
      unfolding take_map rows_k take_group_rows [OF ik] ..
    also have "\<dots> = entity_history keycol w i"
      unfolding entity_history_def prior_races_def using i len by (intro map_cong) auto
    finally have "rolling_mean 50 10 (map ((!) (map num_of w)) ?rows) ! ?q =
          window_mean 50 10 (entity_history keycol w i)" .
    with fk one roll Some show ?thesis by simp
  qed
qed

lemma column_length:
  assumes "row_labelled df n" "column df name = Some c"
  shows "length c = n"
proof -
  from assms(2) have "(name, c) \<in> set (columns df)"
    unfolding column_def by (rule map_of_SomeD)
  with assms(1) show ?thesis by (auto simp: row_labelled_def list_all_iff)
qed

lemma rolling_step_ready:
  assumes rl: "row_labelled df n"
    and key: "column df col = Some keycol"
    and win: "column df ''Winner'' = Some w" and wnum: "list_all is_numeric w"
    and fresh: "col @ ''_WinRate50'' \<notin> fst ` set (columns df)"
  shows "rolling_step col df =
     Inr (df\<lparr>columns := columns df @ [(col @ ''_WinRate50'', map (win_rate_cell keycol w) [0..<n])]\<rparr>)"
proof -
  have klen: "length keycol = n" using rl key by (rule column_length)
  have wlen: "length w = n" using rl win by (rule column_length)
  have idx: "index df = map int [0..<n]"
    and l1: "column df ''level_1'' = Some (map (\<lambda>i. Some (Num (real i))) [0..<n])"
    and lens: "\<And>c. c \<in> set (columns df) \<Longrightarrow> length (snd c) = n"
    using rl by (auto simp: row_labelled_def list_all_iff)
  let ?l1 = "map (\<lambda>i. Some (Num (real i))) [0..<n]"
  let ?roll = "groupby_rolling_mean (map int [0..<n]) keycol (map num_of w)"
  let ?g = "\<lambda>i. case keycol ! i of
                  None \<Rightarrow> None
                | Some k \<Rightarrow> Some (k, int i, window_mean 50 10 (entity_history keycol w i))"
  have pairs: "merge_left (\<lambda>i. (?l1 ! i, keycol ! i))
                 (\<lambda>(k, l, v). (Some (Num (of_int l)), Some k)) [0..<n] ?roll =
               map (\<lambda>i. (i, ?g i)) [0..<n]"
  proof (rule merge_left_single)
    fix i assume "i \<in> set [0..<n]"
    then have i: "i < n" by simp
    then have "?l1 ! i = Some (Num (real i))" by simp
    then show "filter (\<lambda>b. (case b of (k, l, v) \<Rightarrow> (Some (Num (of_int l)), Some k)) = (?l1 ! i, keycol ! i)) ?roll =
       (case ?g i of None \<Rightarrow> [] | Some b \<Rightarrow> [b])"
      using rolling_match [OF i klen wlen] by (simp split: option.splits)
  qed
  have num1: "list_all is_numeric ?l1" by (simp add: list_all_iff)
  have left: "map (\<lambda>(nm, c). (if col @ ''_WinRate50'' \<in> fst ` set (columns df) \<and> nm = col @ ''_WinRate50''
                                  then nm @ ''_x'' else nm,
                                map (\<lambda>(i, m). c ! i) (map (\<lambda>i. (i, ?g i)) [0..<n])))
                (columns df) = columns df"
  proof -
    have "map (\<lambda>(nm, c). (if col @ ''_WinRate50'' \<in> fst ` set (columns df) \<and> nm = col @ ''_WinRate50''
                                  then nm @ ''_x'' else nm,
                                map (\<lambda>(i, m). c ! i) (map (\<lambda>i. (i, ?g i)) [0..<n])))
                (columns df) = map (\<lambda>x. x) (columns df)"
    proof (rule map_cong)
      fix x assume x: "x \<in> set (columns df)"
      obtain nm c where xc: "x = (nm, c)" by (cases x)
      have "length c = n" using lens [OF x] xc by simp
      then have "map ((!) c) [0..<n] = c" by (metis map_nth)
      then show "(case x of (nm, c) \<Rightarrow> (if col @ ''_WinRate50'' \<in> fst ` set (columns df) \<and> nm = col @ ''_WinRate50''
                                  then nm @ ''_x'' else nm,
                                map (\<lambda>(i, m). c ! i) (map (\<lambda>i. (i, ?g i)) [0..<n]))) = x"
        using fresh xc by (simp add: comp_def)
    qed simp
    then show ?thesis by simp
  qed
  have right: "map (\<lambda>(i, m). case m of None \<Rightarrow> None | Some (k, l, v) \<Rightarrow> map_option Num v)
                 (map (\<lambda>i. (i, ?g i)) [0..<n]) = map (win_rate_cell keycol w) [0..<n]"
    by (auto simp: win_rate_cell_def split: option.splits)
  have "merge_rolling df col ?roll =
     Inr \<lparr>index = map int [0..<n],
          columns = columns df @ [(col @ ''_WinRate50'', map (win_rate_cell keycol w) [0..<n])]\<rparr>"
    apply (simp only: merge_rolling_def l1 key idx prod.case option.case length_map length_upt
        minus_nat.diff_0 Let_def pairs left right)
    using num1 fresh apply simp
    done
  moreover have "\<lparr>index = map int [0..<n],
          columns = columns df @ [(col @ ''_WinRate50'', map (win_rate_cell keycol w) [0..<n])]\<rparr> =
      df\<lparr>columns := columns df @ [(col @ ''_WinRate50'', map (win_rate_cell keycol w) [0..<n])]\<rparr>"
    using idx by simp
  ultimately show ?thesis
    unfolding rolling_step_def key win idx using wnum by simp
qed

lemma column_None_fresh: "column df name = None \<Longrightarrow> name \<notin> fst ` set (columns df)"
  by (simp add: column_def map_of_eq_None_iff)

lemma rolling_step_any:
  assumes rl: "row_labelled df n"
    and win: "column df ''Winner'' = Some w" and wnum: "list_all is_numeric w"
    and fresh: "column df (col @ ''_WinRate50'') = None"
  shows "rolling_step col df =
     Inr (df\<lparr>columns := columns df @
            (case column df col of
               None \<Rightarrow> []
             | Some keycol \<Rightarrow> [(col @ ''_WinRate50'', map (win_rate_cell keycol w) [0..<n])])\<rparr>)"
proof (cases "column df col")
  case None
  then show ?thesis by (simp add: rolling_step_def)
next
  case (Some keycol)
  show ?thesis
    using rolling_step_ready [OF rl Some win wnum column_None_fresh [OF fresh]] Some by simp
qed

lemma column_append:
  "column (df\<lparr>columns := columns df @ extra\<rparr>) name =
     (case column df name of None \<Rightarrow> map_of extra name | Some c \<Rightarrow> Some c)"
  by (simp add: column_def map_add_def split: option.splits)

lemma add_rolling_win_rates_any:
  assumes inp: "rolling_input df n w"
  shows "add_rolling_win_rates df =
     Inr (df\<lparr>columns := columns df @
            (case column df ''JockeyID'' of
               None \<Rightarrow> []
             | Some jockey \<Rightarrow> [(''JockeyID_WinRate50'', map (win_rate_cell jockey w) [0..<n])]) @
            (case column df ''TrainerID'' of
               None \<Rightarrow> []
             | Some trainer \<Rightarrow> [(''TrainerID_WinRate50'', map (win_rate_cell trainer w) [0..<n])])\<rparr>)"
proof -
  from inp have rl: "row_labelled df n"
    and win: "column df ''Winner'' = Some w" and wnum: "list_all is_numeric w"
    and fj: "column df ''JockeyID_WinRate50'' = None"
    and ft: "column df ''TrainerID_WinRate50'' = None"
    by (simp_all add: rolling_input_def)
  let ?J = "case column df ''JockeyID'' of
               None \<Rightarrow> []
             | Some jockey \<Rightarrow> [(''JockeyID_WinRate50'', map (win_rate_cell jockey w) [0..<n])]"
  let ?df1 = "df\<lparr>columns := columns df @ ?J\<rparr>"
  have s1: "rolling_step ''JockeyID'' df = Inr ?df1"
    using rolling_step_any [OF rl win wnum, of "''JockeyID''"] fj by (simp split: option.splits)
  have jlen: "list_all (\<lambda>c. length (snd c) = n) ?J"
    by (simp split: option.splits)
  have jname: "map_of ?J name = None" if "name \<noteq> ''JockeyID_WinRate50''" for name
    using that by (simp split: option.splits)
  have l1: "column ?df1 ''level_1'' = column df ''level_1''"
    unfolding column_append using jname [of "''level_1''"] by (simp split: option.splits)
  have rl1: "row_labelled ?df1 n"
    using rl jlen l1 by (simp add: row_labelled_def)
  have win1: "column ?df1 ''Winner'' = Some w"
    unfolding column_append using win by simp
  have ft1: "column ?df1 (''TrainerID'' @ ''_WinRate50'') = None"
    unfolding column_append using ft jname [of "''TrainerID_WinRate50''"] by simp
  have tk1: "column ?df1 ''TrainerID'' = column df ''TrainerID''"
    unfolding column_append using jname [of "''TrainerID''"] by (simp split: option.splits)
  have s2: "rolling_step ''TrainerID'' ?df1 =
     Inr (?df1\<lparr>columns := columns ?df1 @
            (case column df ''TrainerID'' of
               None \<Rightarrow> []
             | Some trainer \<Rightarrow> [(''TrainerID_WinRate50'', map (win_rate_cell trainer w) [0..<n])])\<rparr>)"
    using rolling_step_any [OF rl1 win1 wnum ft1] unfolding tk1 by (simp split: option.splits)
  show ?thesis
    unfolding add_rolling_win_rates_def s1 using s2 by simp
qed

lemma win_rate_columns:
  assumes inp: "rolling_input df n w"
  shows "\<exists>df'. add_rolling_win_rates df = Inr df' \<and>
           (\<forall>jockey. column df ''JockeyID'' = Some jockey \<longrightarrow>
              column df' ''JockeyID_WinRate50'' = Some (map (win_rate_cell jockey w) [0..<n])) \<and>
           (\<forall>trainer. column df ''TrainerID'' = Some trainer \<longrightarrow>
              column df' ''TrainerID_WinRate50'' = Some (map (win_rate_cell trainer w) [0..<n]))"
proof -
  from inp have fj: "column df ''JockeyID_WinRate50'' = None"
    and ft: "column df ''TrainerID_WinRate50'' = None"
    by (simp_all add: rolling_input_def)
  show ?thesis
    unfolding add_rolling_win_rates_any [OF inp]
    using fj ft by (auto simp: column_append split: option.splits)
qed

lemma window_mean_short:
  assumes "length past < 10"
  shows "window_mean 50 10 past = None"
proof -
  have "length (observed (drop (length past - 50) past)) \<le> length past"
    unfolding observed_def
    by (metis length_map length_filter_le length_drop diff_le_self le_trans)
  with assms show ?thesis by (simp add: window_mean_def Let_def)
qed

lemma entity_history_snoc:
  "entity_history keycol w i =
     map (\<lambda>j. num_of (w ! j)) (prior_races keycol i) @ [num_of (w ! i)]"
  by (simp add: entity_history_def)

lemma win_rate_cell_own:
  "win_rate_cell keycol w i =
     (case keycol ! i of
        None \<Rightarrow> None
      | Some k \<Rightarrow> map_option Num (window_mean 50 10
           (map (\<lambda>j. num_of (w ! j)) (prior_races keycol i) @ [num_of (w ! i)])))"
  unfolding win_rate_cell_def entity_history_snoc ..

lemma length_entity_history: "length (entity_history keycol w i) = Suc (length (prior_races keycol i))"
  by (simp add: entity_history_def)

lemma win_rate_cell_short:
  "length (prior_races keycol i) < 9 \<Longrightarrow> win_rate_cell keycol w i = None"
  by (simp add: win_rate_cell_def window_mean_short length_entity_history split: option.splits)

lemma win_rate_cell_observed:
  assumes "keycol ! i \<noteq> None"
  shows "win_rate_cell keycol w i =
     (let h = entity_history keycol w i; obs = observed (drop (length h - 50) h)
      in if 10 \<le> length obs then Some (Num (sum_list obs / real (length obs))) else None)"
  using assms by (auto simp: win_rate_cell_def window_mean_def Let_def)

lemma example_input: "rolling_input (example_frame x) 11 (example_winner x)"
  by (simp add: rolling_input_def row_labelled_def example_frame_def column_def
      example_jockey_def example_trainer_def example_winner_def list_all_iff)

lemma example_columns:
  "column (example_frame x) ''JockeyID'' = Some example_jockey"
  "column (example_frame x) ''TrainerID'' = Some example_trainer"
  by (simp_all add: example_frame_def column_def)

lemma example_own_race:
  "(case example_jockey ! 10 of
      None \<Rightarrow> None
    | Some k \<Rightarrow> map_option Num (window_mean 50 10
        (map (\<lambda>j. num_of (example_winner 1 ! j)) (prior_races example_jockey 10) @
         [num_of (example_winner 1 ! 10)]))) = Some (Num (1 / 10))"
  by code_simp

lemma example_cells:
  "cell_at (add_rolling_win_rates (example_frame 0)) ''JockeyID_WinRate50'' 10 = Inr (Some (Num 0))"
  "cell_at (add_rolling_win_rates (example_frame 1)) ''JockeyID_WinRate50'' 10 = Inr (Some (Num (1 / 10)))"
  by code_simp+

lemma example_prior: "length (prior_races example_jockey 10) = 9" "length (prior_races example_jockey 5) = 4"
  by code_simp+

lemma example_recent:
  "example_jockey ! 10 \<noteq> None"
  "(let h = entity_history example_jockey (example_winner 1) 10;
        obs = observed (drop (length h - 50) h)
    in if 10 \<le> length obs then Some (Num (sum_list obs / real (length obs))) else None) =
   Some (Num (1 / 10))"
  by code_simp+

text \<open>
  The row labels matter. On the table of twelve races labelled \<open>1, ..., 12\<close> the
  function returns, but its first merge renumbers the index from 0 while \<^verbatim>\<open>level_1\<close>
  keeps the old labels, so the second merge attaches to each row the trainer's value of
  the next row: the ninth row, with 8 prior races, gets the mean over the first ten.
  That table is not an input in the sense of \<open>rolling_input\<close>.
\<close>

lemma one_based_not_input: "\<not> rolling_input one_based_frame n w"
proof
  assume "rolling_input one_based_frame n w"
  then have eq: "map int [1..<13] = map int [0..<n]"
    by (simp add: rolling_input_def row_labelled_def one_based_frame_def)
  then have "length (map int [1..<13]) = length (map int [0..<n])" by (rule arg_cong)
  then have n: "n = 12" by simp
  from eq have "map int [1..<13] ! 0 = map int [0..<n] ! 0" by (rule arg_cong)
  then show False unfolding n by simp
qed

lemma one_based_trainer_rate:
  "cell_at (add_rolling_win_rates one_based_frame) ''JockeyID_WinRate50'' 8 = Inr None"
  "cell_at (add_rolling_win_rates one_based_frame) ''TrainerID_WinRate50'' 8 = Inr (Some (Num (1 / 10)))"
  "length (prior_races (map (\<lambda>i. Some (Str ''T'')) [0..<12]) 8) = 8"
  by code_simp+

text \<open>
  C3 (as amended). On a table of \<open>n\<close> rows whose index is \<open>0, ..., n - 1\<close> and
  which carries a column \<^verbatim>\<open>level_1\<close> repeating that index, a numeric \<^verbatim>\<open>Winner\<close>
  column and no win-rate column yet, the transform returns, and for every entity column
  present (jockey or trainer) and every row, the rolling win-rate value attached to the
  row is the rolling mean over the \<^verbatim>\<open>Winner\<close> values of the entity's prior races
  followed by the row's own \<^verbatim>\<open>Winner\<close> value: the window ends with, and includes, the
  current race. It is missing when the entity is missing.
\<close>

theorem rolling_win_rate_includes_own_race:
  assumes inp: "rolling_input df n w" and i: "i < n"
  shows "\<exists>df'. add_rolling_win_rates df = Inr df' \<and>
           (\<forall>jockey. column df ''JockeyID'' = Some jockey \<longrightarrow>
              (\<exists>jr. column df' ''JockeyID_WinRate50'' = Some jr \<and>
                 jr ! i = (case jockey ! i of
                             None \<Rightarrow> None
                           | Some k \<Rightarrow> map_option Num (window_mean 50 10
                               (map (\<lambda>j. num_of (w ! j)) (prior_races jockey i) @
                                [num_of (w ! i)]))))) \<and>
           (\<forall>trainer. column df ''TrainerID'' = Some trainer \<longrightarrow>
              (\<exists>tr. column df' ''TrainerID_WinRate50'' = Some tr \<and>
                 tr ! i = (case trainer ! i of
                             None \<Rightarrow> None
                           | Some k \<Rightarrow> map_option Num (window_mean 50 10
                               (map (\<lambda>j. num_of (w ! j)) (prior_races trainer i) @
                                [num_of (w ! i)])))))"
proof -
  from win_rate_columns [OF inp] obtain df' where
    d: "add_rolling_win_rates df = Inr df'"
    and j: "\<And>jockey. column df ''JockeyID'' = Some jockey \<Longrightarrow>
              column df' ''JockeyID_WinRate50'' = Some (map (win_rate_cell jockey w) [0..<n])"
    and t: "\<And>trainer. column df ''TrainerID'' = Some trainer \<Longrightarrow>
              column df' ''TrainerID_WinRate50'' = Some (map (win_rate_cell trainer w) [0..<n])"
    by blast
  have cell: "map (win_rate_cell keycol w) [0..<n] ! i =
        (case keycol ! i of
           None \<Rightarrow> None
         | Some k \<Rightarrow> map_option Num (window_mean 50 10
             (map (\<lambda>j. num_of (w ! j)) (prior_races keycol i) @ [num_of (w ! i)])))" for keycol
    using i win_rate_cell_own [of keycol w i] by simp
  show ?thesis
    using d j t cell by blast
qed

text \<open>
  The theorem at the last row of the example table whose last race is won.
\<close>

theorem rolling_win_rate_includes_own_race_witness:
  "rolling_input (example_frame 1) 11 (example_winner 1) \<and>
   (\<exists>df' jr. add_rolling_win_rates (example_frame 1) = Inr df' \<and>
      column df' ''JockeyID_WinRate50'' = Some jr \<and> jr ! 10 = Some (Num (1 / 10)))"
proof -
  have "(10::nat) < 11" by simp
  from rolling_win_rate_includes_own_race [OF example_input this, of 1]
  show ?thesis
    using example_columns(1) [of 1] example_input [of 1]
    unfolding example_own_race [symmetric] by blast
qed

text \<open>
  C3 as stated fails: two tables that differ only in the \<^verbatim>\<open>Winner\<close> outcome of the last
  row get different rolling win rates for the jockey at that row, 0 and 1/10.
\<close>

theorem rolling_win_rate_depends_on_own_winner:
  "cell_at (add_rolling_win_rates (example_frame 0)) ''JockeyID_WinRate50'' 10 = Inr (Some (Num 0)) \<and>
   cell_at (add_rolling_win_rates (example_frame 1)) ''JockeyID_WinRate50'' 10 = Inr (Some (Num (1 / 10))) \<and>
   Inr (Some (Num 0)) \<noteq> (Inr (Some (Num (1 / 10))) :: py_error + cell option)"
  unfolding example_cells by simp

text \<open>
  C4 (as amended). On a table of \<open>n\<close> rows whose index is \<open>0, ..., n - 1\<close> and
  which carries a column \<^verbatim>\<open>level_1\<close> repeating that index, a numeric \<^verbatim>\<open>Winner\<close>
  column and no win-rate column yet, the transform returns, and for every entity column
  present (jockey or trainer) and every row, the rolling win-rate value is missing
  whenever the entity has fewer than 9 prior races (fewer than 10 races counting the
  current one); with at least 10 observed win indicators among the entity's most recent
  50 races, the current one included, it is their mean, and it is missing with fewer.
\<close>

theorem rolling_win_rate_min_periods:
  assumes inp: "rolling_input df n w" and i: "i < n"
  shows "\<exists>df'. add_rolling_win_rates df = Inr df' \<and>
           (\<forall>jockey. column df ''JockeyID'' = Some jockey \<longrightarrow>
              (\<exists>jr. column df' ''JockeyID_WinRate50'' = Some jr \<and>
                 (length (prior_races jockey i) < 9 \<longrightarrow> jr ! i = None) \<and>
                 (jockey ! i \<noteq> None \<longrightarrow>
                    jr ! i =
                      (let h = entity_history jockey w i; obs = observed (drop (length h - 50) h)
                       in if 10 \<le> length obs then Some (Num (sum_list obs / real (length obs)))
                          else None)))) \<and>
           (\<forall>trainer. column df ''TrainerID'' = Some trainer \<longrightarrow>
              (\<exists>tr. column df' ''TrainerID_WinRate50'' = Some tr \<and>
                 (length (prior_races trainer i) < 9 \<longrightarrow> tr ! i = None) \<and>
                 (trainer ! i \<noteq> None \<longrightarrow>
                    tr ! i =
                      (let h = entity_history trainer w i; obs = observed (drop (length h - 50) h)
                       in if 10 \<le> length obs then Some (Num (sum_list obs / real (length obs)))
                          else None))))"
proof -
  from win_rate_columns [OF inp] obtain df' where
    d: "add_rolling_win_rates df = Inr df'"
    and j: "\<And>jockey. column df ''JockeyID'' = Some jockey \<Longrightarrow>
              column df' ''JockeyID_WinRate50'' = Some (map (win_rate_cell jockey w) [0..<n])"
    and t: "\<And>trainer. column df ''TrainerID'' = Some trainer \<Longrightarrow>
              column df' ''TrainerID_WinRate50'' = Some (map (win_rate_cell trainer w) [0..<n])"
    by blast
  have ci: "map (win_rate_cell keycol w) [0..<n] ! i = win_rate_cell keycol w i" for keycol
    using i by simp
  have short: "length (prior_races keycol i) < 9 \<longrightarrow> map (win_rate_cell keycol w) [0..<n] ! i = None"
    for keycol
    unfolding ci by (simp add: win_rate_cell_short)
  have full: "keycol ! i \<noteq> None \<longrightarrow>
        map (win_rate_cell keycol w) [0..<n] ! i =
          (let h = entity_history keycol w i; obs = observed (drop (length h - 50) h)
           in if 10 \<le> length obs then Some (Num (sum_list obs / real (length obs)))
              else None)" for keycol
    unfolding ci using win_rate_cell_observed [of keycol i w] by blast
  show ?thesis
    using d j t short full by blast
qed

text \<open>
  The theorem at the sixth and at the last row of the example table: jockey \<open>A\<close> has
  4 prior races at the one and 9 at the other.
\<close>

theorem rolling_win_rate_min_periods_witness:
  "rolling_input (example_frame 1) 11 (example_winner 1) \<and>
   (\<exists>df' jr. add_rolling_win_rates (example_frame 1) = Inr df' \<and>
      column df' ''JockeyID_WinRate50'' = Some jr \<and> jr ! 5 = None \<and> jr ! 10 = Some (Num (1 / 10)))"
proof -
  have "(5::nat) < 11" by simp
  from rolling_win_rate_min_periods [OF example_input this, of 1] example_columns(1) [of 1]
  obtain df' jr where d: "add_rolling_win_rates (example_frame 1) = Inr df'"
    and j: "column df' ''JockeyID_WinRate50'' = Some jr"
    and short: "length (prior_races example_jockey 5) < 9 \<longrightarrow> jr ! 5 = None"
    by blast
  have "(10::nat) < 11" by simp
  from rolling_win_rate_min_periods [OF example_input this, of 1] example_columns(1) [of 1]
  obtain df'' jr' where d': "add_rolling_win_rates (example_frame 1) = Inr df''"
    and j': "column df'' ''JockeyID_WinRate50'' = Some jr'"
    and full: "example_jockey ! 10 \<noteq> None \<longrightarrow>
              jr' ! 10 =
                (let h = entity_history example_jockey (example_winner 1) 10;
                     obs = observed (drop (length h - 50) h)
                 in if 10 \<le> length obs then Some (Num (sum_list obs / real (length obs)))
                    else None)"
    by blast
  from d d' j j' have same: "jr' = jr" by simp
  from short have "jr ! 5 = None" by (simp add: example_prior)
  moreover from full have "jr ! 10 = Some (Num (1 / 10))"
    unfolding same example_recent(2) using example_recent(1) by blast
  ultimately show ?thesis using d j example_input by blast
qed

text \<open>
  C4 as stated fails: at the last row of the example table the jockey has 9 prior races,
  fewer than 10, and the rolling win rate is the number 1/10, not a missing marker.
\<close>

theorem rolling_win_rate_after_nine_prior_races:
  "length (prior_races example_jockey 10) = 9 \<and>
   cell_at (add_rolling_win_rates (example_frame 1)) ''JockeyID_WinRate50'' 10 =
     Inr (Some (Num (1 / 10)))"
  by (simp add: example_prior example_cells)

text \<open>
  C7 (where it fails). On a table that has a \<^verbatim>\<open>JockeyID\<close> or a \<^verbatim>\<open>TrainerID\<close>
  column, a numeric \<^verbatim>\<open>Winner\<close> column and no column named \<^verbatim>\<open>level_1\<close>, the rolling
  win-rate transform does not complete: \<^verbatim>\<open>add_rolling_win_rates\<close> raises \<^verbatim>\<open>KeyError\<close>
  at its merge, and the pipeline stops there.
\<close>

theorem rolling_merge_raises_KeyError:
  assumes "column df ''level_1'' = None"
    and "column df ''JockeyID'' \<noteq> None \<or> column df ''TrainerID'' \<noteq> None"
    and "column df ''Winner'' = Some w" and "list_all is_numeric w"
  shows "add_rolling_win_rates df = Inl (KeyError ''level_1'')"
  using assms
  by (auto simp: add_rolling_win_rates_def rolling_step_def merge_rolling_def split: option.splits)

text \<open>
  The theorem at a race table of two rows.
\<close>

theorem rolling_merge_raises_KeyError_witness:
  "add_rolling_win_rates race_table = Inl (KeyError ''level_1'')"
proof -
  have "column race_table ''level_1'' = None"
    by (simp add: race_table_def column_def)
  moreover have "column race_table ''JockeyID'' \<noteq> None \<or> column race_table ''TrainerID'' \<noteq> None"
    by (simp add: race_table_def column_def)
  moreover have "column race_table ''Winner'' = Some [Some (Num 1), Some (Num 0)]"
    by (simp add: race_table_def column_def)
  moreover have "list_all is_numeric [Some (Num 1), Some (Num 0)]" by simp
  ultimately show ?thesis by (rule rolling_merge_raises_KeyError)
qed

subsection \<open>Cross-validation folds\<close>

lemma train_and_evaluate_folds_example:
  "train_and_evaluate_folds 2 (\<lambda>g. nat (g mod 2)) [10, 10, 11, 12, 12, 11 :: int] =
     Inr [\<lparr>train_idx = [2, 5], val_idx = [0, 1, 3, 4],
           train_races = [11, 11], val_races = [10, 10, 12, 12]\<rparr>,
          \<lparr>train_idx = [0, 1, 3, 4], val_idx = [2, 5],
           train_races = [10, 10, 12, 12], val_races = [11, 11]\<rparr>]"
  by code_simp

text \<open>
  C1. For every fold that \<^verbatim>\<open>train_and_evaluate\<close> produces, the race identifiers of the
  training partition and those of the validation partition are disjoint; the two index
  arrays are disjoint and cover all rows; and two rows of the same race are both in the
  validation partition or both outside it.
\<close>

theorem folds_group_disjoint:
  assumes ok: "train_and_evaluate_folds num_folds group_to_fold race_ids = Inr folds"
    and f: "fd \<in> set folds"
  shows "set (train_races fd) \<inter> set (val_races fd) = {} \<and>
         set (train_idx fd) \<inter> set (val_idx fd) = {} \<and>
         set (train_idx fd) \<union> set (val_idx fd) = {0..<length race_ids} \<and>
         (\<forall>i<length race_ids. \<forall>j<length race_ids.
            race_ids ! i = race_ids ! j \<longrightarrow> (i \<in> set (val_idx fd) \<longleftrightarrow> j \<in> set (val_idx fd)))"
proof -
  define mk where "mk = (\<lambda>(tr, va). \<lparr>train_idx = tr, val_idx = va,
                                 train_races = iloc race_ids tr,
                                 val_races = iloc race_ids va\<rparr>)"
  define sp where "sp = (\<lambda>f. (filter (\<lambda>i. group_to_fold (race_ids ! i) \<noteq> f) [0..<length race_ids],
                           filter (\<lambda>i. group_to_fold (race_ids ! i) = f) [0..<length race_ids]))"
  have "GroupKFold_split num_folds group_to_fold race_ids = Inr (map sp [0..<num_folds])"
    using ok unfolding train_and_evaluate_folds_def GroupKFold_split_def sp_def
    by (simp split: if_splits)
  then have "folds = map mk (map sp [0..<num_folds])"
    using ok unfolding train_and_evaluate_folds_def mk_def by simp
  with f obtain k where fd: "fd = mk (sp k)" by auto
  define tr where "tr = filter (\<lambda>i. group_to_fold (race_ids ! i) \<noteq> k) [0..<length race_ids]"
  define va where "va = filter (\<lambda>i. group_to_fold (race_ids ! i) = k) [0..<length race_ids]"
  have fd': "train_idx fd = tr" "val_idx fd = va" "train_races fd = iloc race_ids tr"
    "val_races fd = iloc race_ids va"
    unfolding fd mk_def sp_def tr_def va_def by simp_all
  have "set (iloc race_ids tr) \<inter> set (iloc race_ids va) = {}"
    unfolding iloc_def tr_def va_def by auto
  moreover have "set tr \<inter> set va = {}" unfolding tr_def va_def by auto
  moreover have "set tr \<union> set va = {0..<length race_ids}" unfolding tr_def va_def by auto
  moreover have "\<forall>i<length race_ids. \<forall>j<length race_ids.
            race_ids ! i = race_ids ! j \<longrightarrow> (i \<in> set va \<longleftrightarrow> j \<in> set va)"
    unfolding va_def by simp
  ultimately show ?thesis unfolding fd' by blast
qed

text \<open>
  The theorem at the first of the two folds of six rows in three races.
\<close>

theorem folds_group_disjoint_witness:
  "train_and_evaluate_folds 2 (\<lambda>g. nat (g mod 2)) [10, 10, 11, 12, 12, 11 :: int] =
     Inr [\<lparr>train_idx = [2, 5], val_idx = [0, 1, 3, 4],
           train_races = [11, 11], val_races = [10, 10, 12, 12]\<rparr>,
          \<lparr>train_idx = [0, 1, 3, 4], val_idx = [2, 5],
           train_races = [10, 10, 12, 12], val_races = [11, 11]\<rparr>] \<and>
   set [11, 11 :: int] \<inter> set [10, 10, 12, 12] = {}"
proof -
  have "\<lparr>train_idx = [2, 5], val_idx = [0, 1, 3, 4],
           train_races = [11, 11], val_races = [10, 10, 12, 12 :: int]\<rparr> \<in>
        set [\<lparr>train_idx = [2, 5], val_idx = [0, 1, 3, 4],
           train_races = [11, 11], val_races = [10, 10, 12, 12]\<rparr>,
          \<lparr>train_idx = [0, 1, 3, 4], val_idx = [2, 5],
           train_races = [10, 10, 12, 12], val_races = [11, 11]\<rparr>]"
    by simp
  from folds_group_disjoint [OF train_and_evaluate_folds_example this]
  have "set [11, 11 :: int] \<inter> set [10, 10, 12, 12] = {}" by simp
  with train_and_evaluate_folds_example show ?thesis by simp
qed

subsection \<open>The edge computation\<close>

lemma set_merge_left:
  "set (merge_left kl kr left right) =
     {(a, Some b) | a b. a \<in> set left \<and> b \<in> set right \<and> kr b = kl a} \<union>
     {(a, None) | a. a \<in> set left \<and> (\<forall>b\<in>set right. kr b \<noteq> kl a)}"
proof -
  have one: "set (case filter (\<lambda>b. kr b = kl a) right of
                          [] \<Rightarrow> [(a, None)]
                        | b # bs \<Rightarrow> map (\<lambda>b'. (a, Some b')) (b # bs)) =
     {(a, Some b) | b. b \<in> set right \<and> kr b = kl a} \<union>
     {(a, None) | x. x = a \<and> (\<forall>b\<in>set right. kr b \<noteq> kl a)}" for a
  proof (cases "filter (\<lambda>b. kr b = kl a) right")
    case Nil
    then have "\<forall>b\<in>set right. kr b \<noteq> kl a" by (simp add: filter_empty_conv)
    with Nil show ?thesis by auto
  next
    case (Cons b bs)
    then have "b \<in> set (filter (\<lambda>b. kr b = kl a) right)" by simp
    then have ex: "\<exists>b\<in>set right. kr b = kl a" by auto
    have "set (b # bs) = {b \<in> set right. kr b = kl a}" using Cons [symmetric] by simp
    with ex Cons show ?thesis by auto
  qed
  show ?thesis unfolding merge_left_def set_concat set_map using one by auto
qed

lemma merge_left_fst: "x \<in> set (merge_left kl kr left right) \<Longrightarrow> fst x \<in> set left"
  by (auto simp: set_merge_left)

lemma merge_left_covers:
  assumes a: "a \<in> set left"
  shows "\<exists>x\<in>set (merge_left kl kr left right). fst x = a"
proof (cases "\<exists>b\<in>set right. kr b = kl a")
  case True
  then obtain b where "b \<in> set right" "kr b = kl a" by blast
  with a have "(a, Some b) \<in> set (merge_left kl kr left right)" by (simp add: set_merge_left)
  then show ?thesis by force
next
  case False
  with a have "(a, None) \<in> set (merge_left kl kr left right)" by (simp add: set_merge_left)
  then show ?thesis by force
qed

lemma merge_left_unmatched:
  "x \<in> set (merge_left kl kr left right) \<Longrightarrow> \<forall>b\<in>set right. kr b \<noteq> kl (fst x) \<Longrightarrow> snd x = None"
  by (auto simp: set_merge_left)

lemma merge_left_snd:
  "x \<in> set (merge_left kl kr left right) \<Longrightarrow>
     (snd x = None \<and> (\<forall>b\<in>set right. kr b \<noteq> kl (fst x))) \<or>
     (\<exists>b\<in>set right. kr b = kl (fst x) \<and> snd x = Some b)"
  by (auto simp: set_merge_left)

lemma bt_key_backtest_of: "bt_key (backtest_of x) = pred_key (fst (fst x))"
  by (simp add: bt_key_def backtest_of_def pred_key_def Let_def)

lemma backtest_example:
  "create_edge_backtest_file
     [\<lparr>Race_ID = (1::nat), Horse = ''A'', Predicted_Probability = rnd (3 / 10)\<rparr>]
     [\<lparr>market_Race_ID = 1, market_Horse = ''A'', market_Market_Odds = Fin 4\<rparr>]
     [\<lparr>labels_Race_ID = 1, labels_Horse = ''A'', labels_Position = Fin 1\<rparr>] =
   [\<lparr>bt_Race_ID = 1, bt_Horse = ''A'', bt_Predicted_Probability = Fin (5404319552844595 / 2 ^ 54),
     bt_Market_Odds = Fin 4, Market_Prob = Fin (1 / 4),
     Edge_Score = Fin (900719925474099 / 2 ^ 54), True_Label = 1\<rparr>]"
  by code_simp

lemma rnd_0_05: "rnd (5 / 100) = Fin (3602879701896397 / 2 ^ 56)"
  by code_simp

lemma backtest_unmatched_example:
  "create_edge_backtest_file
     [\<lparr>Race_ID = (1::nat), Horse = ''A'', Predicted_Probability = Fin (1 / 2)\<rparr>]
     [\<lparr>market_Race_ID = 1, market_Horse = ''A'', market_Market_Odds = Fin 4\<rparr>]
     [\<lparr>labels_Race_ID = 1, labels_Horse = ''B'', labels_Position = Fin 1\<rparr>] =
   [\<lparr>bt_Race_ID = 1, bt_Horse = ''A'', bt_Predicted_Probability = Fin (1 / 2),
     bt_Market_Odds = Fin 4, Market_Prob = Fin (1 / 4),
     Edge_Score = Fin (1 / 4), True_Label = 0\<rparr>]"
  by code_simp

text \<open>
  C10. In the table \<^verbatim>\<open>create_edge_backtest_file\<close> returns, a prediction row whose
  \<^verbatim>\<open>(Race_ID, Horse)\<close> key matches no row of the labels table is present, and every
  row with its key has \<^verbatim>\<open>True_Label\<close> 0: the missing \<^verbatim>\<open>Position\<close> compares unequal
  to 1 and becomes the losing label, not a missing marker.
\<close>

theorem unmatched_position_true_label_zero:
  assumes p: "p \<in> set preds"
    and un: "\<forall>l\<in>set labels. label_key l \<noteq> pred_key p"
  shows "(\<exists>r\<in>set (create_edge_backtest_file preds market labels). bt_key r = pred_key p) \<and>
         (\<forall>r\<in>set (create_edge_backtest_file preds market labels).
            bt_key r = pred_key p \<longrightarrow> True_Label r = 0)"
proof
  let ?df = "merge_left pred_key market_key preds market"
  let ?df2 = "merge_left (\<lambda>x. pred_key (fst x)) label_key ?df labels"
  from p obtain x where x: "x \<in> set ?df" "fst x = p"
    using merge_left_covers by metis
  then obtain y where y: "y \<in> set ?df2" "fst y = x"
    using merge_left_covers by metis
  have "backtest_of y \<in> set (create_edge_backtest_file preds market labels)"
    using y by (simp add: create_edge_backtest_file_def)
  moreover have "bt_key (backtest_of y) = pred_key p"
    using x y by (simp add: bt_key_backtest_of)
  ultimately show "\<exists>r\<in>set (create_edge_backtest_file preds market labels). bt_key r = pred_key p"
    by blast
next
  let ?df = "merge_left pred_key market_key preds market"
  let ?df2 = "merge_left (\<lambda>x. pred_key (fst x)) label_key ?df labels"
  show "\<forall>r\<in>set (create_edge_backtest_file preds market labels).
            bt_key r = pred_key p \<longrightarrow> True_Label r = 0"
  proof (intro ballI impI)
    fix r assume r: "r \<in> set (create_edge_backtest_file preds market labels)"
      and k: "bt_key r = pred_key p"
    from r obtain y where y: "y \<in> set ?df2" "r = backtest_of y"
      by (auto simp: create_edge_backtest_file_def)
    have "pred_key (fst (fst y)) = pred_key p" using k y by (simp add: bt_key_backtest_of)
    with un have "\<forall>l\<in>set labels. label_key l \<noteq> pred_key (fst (fst y))" by simp
    with y(1) have "snd y = None" by (rule merge_left_unmatched)
    then show "True_Label r = 0" using y(2) by (simp add: backtest_of_def opt_col_def Let_def)
  qed
qed

text \<open>
  The theorem at a table of one prediction whose horse has no label.
\<close>

theorem unmatched_position_true_label_zero_witness:
  "True_Label \<lparr>bt_Race_ID = (1::nat), bt_Horse = ''A'', bt_Predicted_Probability = Fin (1 / 2),
     bt_Market_Odds = Fin 4, Market_Prob = Fin (1 / 4),
     Edge_Score = Fin (1 / 4), True_Label = 0\<rparr> = 0"
proof -
  let ?p = "\<lparr>Race_ID = (1::nat), Horse = ''A'', Predicted_Probability = Fin (1 / 2)\<rparr>"
  let ?labels = "[\<lparr>labels_Race_ID = (1::nat), labels_Horse = ''B'', labels_Position = Fin 1\<rparr>]"
  let ?market = "[\<lparr>market_Race_ID = (1::nat), market_Horse = ''A'', market_Market_Odds = Fin 4\<rparr>]"
  let ?r = "\<lparr>bt_Race_ID = (1::nat), bt_Horse = ''A'', bt_Predicted_Probability = Fin (1 / 2),
     bt_Market_Odds = Fin 4, Market_Prob = Fin (1 / 4),
     Edge_Score = Fin (1 / 4), True_Label = 0\<rparr>"
  have p: "?p \<in> set [?p]" by simp
  have un: "\<forall>l\<in>set ?labels. label_key l \<noteq> pred_key ?p"
    by (simp add: label_key_def pred_key_def)
  have mem: "?r \<in> set (create_edge_backtest_file [?p] ?market ?labels)"
    unfolding backtest_unmatched_example by simp
  have key: "bt_key ?r = pred_key ?p"
    by (simp add: bt_key_def pred_key_def)
  from unmatched_position_true_label_zero [OF p un, of ?market] mem key
  show ?thesis by blast
qed

text \<open>
  C9 (as amended). For every backtest record the market probability is the binary64
  quotient \<open>1 / odds\<close> and the edge score the binary64 difference of the predicted
  probability and the market probability, the record carrying the probability of a
  prediction row and the odds of a market row with its key (NaN when there is none). For
  the predicted probability 0.30 and the odds 4.0 the market probability is 0.25 exactly
  and the edge score is \<open>900719925474099 / 2 ^ 54\<close> (printed 0.04999999999999999), within
  \<open>10 ^ -16\<close> of 0.05.
\<close>

theorem edge_score_formula:
  "(\<forall>r\<in>set (create_edge_backtest_file preds market labels).
      Market_Prob r = fdiv (Fin 1) (bt_Market_Odds r) \<and>
      Edge_Score r = fsub (bt_Predicted_Probability r) (Market_Prob r) \<and>
      (\<exists>p\<in>set preds. bt_key r = pred_key p \<and>
         bt_Predicted_Probability r = Predicted_Probability p \<and>
         ((bt_Market_Odds r = NaN \<and> (\<forall>m\<in>set market. market_key m \<noteq> pred_key p)) \<or>
          (\<exists>m\<in>set market. market_key m = pred_key p \<and> bt_Market_Odds r = market_Market_Odds m)))) \<and>
   fdiv (Fin 1) (Fin 4) = Fin (1 / 4) \<and>
   fsub (rnd (3 / 10)) (fdiv (Fin 1) (Fin 4)) = Fin (900719925474099 / 2 ^ 54) \<and>
   \<bar>900719925474099 / 2 ^ 54 - 5 / 100\<bar> < (1 / 10 ^ 16 :: real)"
proof (intro conjI ballI)
  let ?df = "merge_left pred_key market_key preds market"
  let ?df2 = "merge_left (\<lambda>x. pred_key (fst x)) label_key ?df labels"
  fix r assume r: "r \<in> set (create_edge_backtest_file preds market labels)"
  then obtain y where y: "y \<in> set ?df2" "r = backtest_of y"
    by (auto simp: create_edge_backtest_file_def)
  show "Market_Prob r = fdiv (Fin 1) (bt_Market_Odds r)"
    using y(2) by (simp add: backtest_of_def Let_def)
  show "Edge_Score r = fsub (bt_Predicted_Probability r) (Market_Prob r)"
    using y(2) by (simp add: backtest_of_def Let_def)
  have x: "fst y \<in> set ?df" using y(1) by (rule merge_left_fst)
  then have p: "fst (fst y) \<in> set preds" by (rule merge_left_fst)
  have odds: "bt_Market_Odds r = opt_col market_Market_Odds (snd (fst y))"
    using y(2) by (simp add: backtest_of_def Let_def)
  have "(bt_Market_Odds r = NaN \<and> (\<forall>m\<in>set market. market_key m \<noteq> pred_key (fst (fst y)))) \<or>
          (\<exists>m\<in>set market. market_key m = pred_key (fst (fst y)) \<and> bt_Market_Odds r = market_Market_Odds m)"
    using merge_left_snd [OF x] odds by (auto simp: opt_col_def)
  moreover have "bt_key r = pred_key (fst (fst y))" using y(2) by (simp add: bt_key_backtest_of)
  moreover have "bt_Predicted_Probability r = Predicted_Probability (fst (fst y))"
    using y(2) by (simp add: backtest_of_def Let_def)
  ultimately show "\<exists>p\<in>set preds. bt_key r = pred_key p \<and>
         bt_Predicted_Probability r = Predicted_Probability p \<and>
         ((bt_Market_Odds r = NaN \<and> (\<forall>m\<in>set market. market_key m \<noteq> pred_key p)) \<or>
          (\<exists>m\<in>set market. market_key m = pred_key p \<and> bt_Market_Odds r = market_Market_Odds m))"
    using p by blast
next
  show "fdiv (Fin 1) (Fin 4) = Fin (1 / 4)" by code_simp
  show "fsub (rnd (3 / 10)) (fdiv (Fin 1) (Fin 4)) = Fin (900719925474099 / 2 ^ 54)" by code_simp
  show "\<bar>900719925474099 / 2 ^ 54 - 5 / 100\<bar> < (1 / 10 ^ 16 :: real)" by simp
qed

text \<open>
  The theorem at the tables of the one record with probability 0.30 and odds 4.0.
\<close>

theorem edge_score_formula_witness:
  "Edge_Score \<lparr>bt_Race_ID = (1::nat), bt_Horse = ''A'',
       bt_Predicted_Probability = Fin (5404319552844595 / 2 ^ 54),
       bt_Market_Odds = Fin 4, Market_Prob = Fin (1 / 4),
       Edge_Score = Fin (900719925474099 / 2 ^ 54), True_Label = 1\<rparr> =
     fsub (Fin (5404319552844595 / 2 ^ 54)) (Fin (1 / 4))"
proof -
  let ?r = "\<lparr>bt_Race_ID = (1::nat), bt_Horse = ''A'',
       bt_Predicted_Probability = Fin (5404319552844595 / 2 ^ 54),
       bt_Market_Odds = Fin 4, Market_Prob = Fin (1 / 4),
       Edge_Score = Fin (900719925474099 / 2 ^ 54), True_Label = 1\<rparr>"
  let ?out = "create_edge_backtest_file
     [\<lparr>Race_ID = (1::nat), Horse = ''A'', Predicted_Probability = rnd (3 / 10)\<rparr>]
     [\<lparr>market_Race_ID = 1, market_Horse = ''A'', market_Market_Odds = Fin 4\<rparr>]
     [\<lparr>labels_Race_ID = 1, labels_Horse = ''A'', labels_Position = Fin 1\<rparr>]"
  have mem: "?r \<in> set ?out"
    unfolding backtest_example by simp
  have "\<forall>r\<in>set ?out. Edge_Score r = fsub (bt_Predicted_Probability r) (Market_Prob r)"
    using edge_score_formula [of
     "[\<lparr>Race_ID = (1::nat), Horse = ''A'', Predicted_Probability = rnd (3 / 10)\<rparr>]"
     "[\<lparr>market_Race_ID = 1, market_Horse = ''A'', market_Market_Odds = Fin 4\<rparr>]"
     "[\<lparr>labels_Race_ID = 1, labels_Horse = ''A'', labels_Position = Fin 1\<rparr>]"]
    by blast
  then have "Edge_Score ?r = fsub (bt_Predicted_Probability ?r) (Market_Prob ?r)"
    using mem by (rule bspec)
  then show ?thesis by (simp del: fsub.simps)
qed

text \<open>
  C9 as stated fails: for the record with predicted probability 0.30 and odds 4.0 the
  edge score is neither the binary64 number nearest to 0.05 nor the real number 0.05.
\<close>

theorem edge_score_not_exactly_0_05:
  "map Edge_Score (create_edge_backtest_file
     [\<lparr>Race_ID = (1::nat), Horse = ''A'', Predicted_Probability = rnd (3 / 10)\<rparr>]
     [\<lparr>market_Race_ID = 1, market_Horse = ''A'', market_Market_Odds = Fin 4\<rparr>]
     [\<lparr>labels_Race_ID = 1, labels_Horse = ''A'', labels_Position = Fin 1\<rparr>]) =
     [Fin (900719925474099 / 2 ^ 54)] \<and>
   Fin (900719925474099 / 2 ^ 54) \<noteq> rnd (5 / 100) \<and>
   Fin (900719925474099 / 2 ^ 54) \<noteq> Fin (5 / 100)"
  unfolding backtest_example rnd_0_05 by simp

end
